theory Spec2Isabelle
  imports Complex_Main
begin

section \<open>JavaScript numbers\<close>

text \<open>
  The trajectory engine (\<^verbatim>\<open>server/trajectory-engine.ts\<close>) computes with the JavaScript
  type \<^verbatim>\<open>number\<close>. A number is modelled as a real, or one of the three special
  values \<open>NaN\<close>, \<open>+Infinity\<close>, \<open>-Infinity\<close>. The special values follow the
  IEEE 754 rules that ECMAScript prescribes (\<open>0/0\<close> is \<open>NaN\<close>, \<open>1/0\<close> is
  \<open>+Infinity\<close>, every comparison with \<open>NaN\<close> is false, \<open>Math.sqrt\<close> and
  \<open>Math.asin\<close> outside their domain give \<open>NaN\<close>).

  Idealisation: a finite number is an exact real. Rounding to 53 bits, overflow to
  infinity, underflow and the sign of zero are not modelled.
\<close>

datatype jsnum = Num real | NaN | PosInf | NegInf

fun isFinite :: "jsnum \<Rightarrow> bool" where
  "isFinite (Num a) = True"
| "isFinite NaN = False"
| "isFinite PosInf = False"
| "isFinite NegInf = False"

fun isNaN :: "jsnum \<Rightarrow> bool" where
  "isNaN NaN = True"
| "isNaN (Num a) = False"
| "isNaN PosInf = False"
| "isNaN NegInf = False"

instantiation jsnum :: "{plus, minus, uminus, times, inverse, abs, sgn, ord}"
begin

fun plus_jsnum :: "jsnum \<Rightarrow> jsnum \<Rightarrow> jsnum" where
  "plus_jsnum (Num a) (Num b) = Num (a + b)"
| "plus_jsnum NaN v = NaN"
| "plus_jsnum u NaN = NaN"
| "plus_jsnum PosInf NegInf = NaN"
| "plus_jsnum NegInf PosInf = NaN"
| "plus_jsnum PosInf v = PosInf"
| "plus_jsnum NegInf v = NegInf"
| "plus_jsnum (Num a) v = v"

fun uminus_jsnum :: "jsnum \<Rightarrow> jsnum" where
  "uminus_jsnum (Num a) = Num (- a)"
| "uminus_jsnum NaN = NaN"
| "uminus_jsnum PosInf = NegInf"
| "uminus_jsnum NegInf = PosInf"

definition minus_jsnum :: "jsnum \<Rightarrow> jsnum \<Rightarrow> jsnum" where
  "minus_jsnum (u::jsnum) v = u + (- v)"

text \<open>The product of an infinity and a finite number takes the sign of the finite
  factor; an infinity times zero is \<open>NaN\<close>.\<close>

fun times_jsnum :: "jsnum \<Rightarrow> jsnum \<Rightarrow> jsnum" where
  "times_jsnum (Num a) (Num b) = Num (a * b)"
| "times_jsnum NaN v = NaN"
| "times_jsnum u NaN = NaN"
| "times_jsnum PosInf (Num b) = (if b = 0 then NaN else if 0 < b then PosInf else NegInf)"
| "times_jsnum NegInf (Num b) = (if b = 0 then NaN else if 0 < b then NegInf else PosInf)"
| "times_jsnum (Num a) PosInf = (if a = 0 then NaN else if 0 < a then PosInf else NegInf)"
| "times_jsnum (Num a) NegInf = (if a = 0 then NaN else if 0 < a then NegInf else PosInf)"
| "times_jsnum PosInf PosInf = PosInf"
| "times_jsnum PosInf NegInf = NegInf"
| "times_jsnum NegInf PosInf = NegInf"
| "times_jsnum NegInf NegInf = PosInf"

text \<open>Division: a finite nonzero number over zero is an infinity of the sign of the
  numerator (the zero is taken as \<open>+0\<close>), \<open>0/0\<close> and \<open>\<infinity>/\<infinity>\<close> are \<open>NaN\<close>.\<close>

fun divide_jsnum :: "jsnum \<Rightarrow> jsnum \<Rightarrow> jsnum" where
  "divide_jsnum (Num a) (Num b) =
     (if b = 0 then (if a = 0 then NaN else if 0 < a then PosInf else NegInf)
      else Num (a / b))"
| "divide_jsnum NaN v = NaN"
| "divide_jsnum u NaN = NaN"
| "divide_jsnum (Num a) PosInf = Num 0"
| "divide_jsnum (Num a) NegInf = Num 0"
| "divide_jsnum PosInf (Num b) = (if 0 \<le> b then PosInf else NegInf)"
| "divide_jsnum NegInf (Num b) = (if 0 \<le> b then NegInf else PosInf)"
| "divide_jsnum PosInf v = NaN"
| "divide_jsnum NegInf v = NaN"

fun inverse_jsnum :: "jsnum \<Rightarrow> jsnum" where
  "inverse_jsnum (Num a) = (if a = 0 then PosInf else Num (1 / a))"
| "inverse_jsnum NaN = NaN"
| "inverse_jsnum PosInf = Num 0"
| "inverse_jsnum NegInf = Num 0"

fun abs_jsnum :: "jsnum \<Rightarrow> jsnum" where
  "abs_jsnum (Num a) = Num \<bar>a\<bar>"
| "abs_jsnum NaN = NaN"
| "abs_jsnum PosInf = PosInf"
| "abs_jsnum NegInf = PosInf"

text \<open>\<^verbatim>\<open>Math.sign\<close>.\<close>

fun sgn_jsnum :: "jsnum \<Rightarrow> jsnum" where
  "sgn_jsnum (Num a) = Num (sgn a)"
| "sgn_jsnum NaN = NaN"
| "sgn_jsnum PosInf = Num 1"
| "sgn_jsnum NegInf = Num (- 1)"

text \<open>The comparisons \<^verbatim>\<open><\<close> and \<^verbatim>\<open><=\<close>: false as soon as one side is \<open>NaN\<close>.\<close>

fun less_jsnum :: "jsnum \<Rightarrow> jsnum \<Rightarrow> bool" where
  "less_jsnum (Num a) (Num b) = (a < b)"
| "less_jsnum NaN v = False"
| "less_jsnum u NaN = False"
| "less_jsnum u NegInf = False"
| "less_jsnum PosInf v = False"
| "less_jsnum NegInf v = True"
| "less_jsnum (Num a) PosInf = True"

fun less_eq_jsnum :: "jsnum \<Rightarrow> jsnum \<Rightarrow> bool" where
  "less_eq_jsnum (Num a) (Num b) = (a \<le> b)"
| "less_eq_jsnum NaN v = False"
| "less_eq_jsnum u NaN = False"
| "less_eq_jsnum NegInf v = True"
| "less_eq_jsnum u PosInf = True"
| "less_eq_jsnum PosInf v = False"
| "less_eq_jsnum (Num a) NegInf = False"

instance ..

end

text \<open>The functions of \<^verbatim>\<open>Math\<close> the engine calls.\<close>

fun Math_sqrt :: "jsnum \<Rightarrow> jsnum" where
  "Math_sqrt (Num a) = (if a < 0 then NaN else Num (sqrt a))"
| "Math_sqrt NaN = NaN"
| "Math_sqrt PosInf = PosInf"
| "Math_sqrt NegInf = NaN"

fun Math_exp :: "jsnum \<Rightarrow> jsnum" where
  "Math_exp (Num a) = Num (exp a)"
| "Math_exp NaN = NaN"
| "Math_exp PosInf = PosInf"
| "Math_exp NegInf = Num 0"

fun Math_log :: "jsnum \<Rightarrow> jsnum" where
  "Math_log (Num a) = (if a < 0 then NaN else if a = 0 then NegInf else Num (ln a))"
| "Math_log NaN = NaN"
| "Math_log PosInf = PosInf"
| "Math_log NegInf = NaN"

fun Math_sin :: "jsnum \<Rightarrow> jsnum" where
  "Math_sin (Num a) = Num (sin a)"
| "Math_sin v = NaN"

fun Math_cos :: "jsnum \<Rightarrow> jsnum" where
  "Math_cos (Num a) = Num (cos a)"
| "Math_cos v = NaN"

fun Math_asin :: "jsnum \<Rightarrow> jsnum" where
  "Math_asin (Num a) = (if - 1 \<le> a \<and> a \<le> 1 then Num (arcsin a) else NaN)"
| "Math_asin v = NaN"

fun Math_asinh :: "jsnum \<Rightarrow> jsnum" where
  "Math_asinh (Num a) = Num (arsinh a)"
| "Math_asinh v = v"

text \<open>\<^verbatim>\<open>Math.atan2(y, x)\<close> on finite arguments, and its values at the infinities.\<close>

definition atan2 :: "real \<Rightarrow> real \<Rightarrow> real" where
  "atan2 b a =
     (if 0 < a then arctan (b / a)
      else if a < 0 then (if 0 \<le> b then arctan (b / a) + pi else arctan (b / a) - pi)
      else if 0 < b then pi / 2
      else if b < 0 then - (pi / 2)
      else 0)"

fun Math_atan2 :: "jsnum \<Rightarrow> jsnum \<Rightarrow> jsnum" where
  "Math_atan2 (Num b) (Num a) = Num (atan2 b a)"
| "Math_atan2 NaN v = NaN"
| "Math_atan2 u NaN = NaN"
| "Math_atan2 (Num b) PosInf = Num 0"
| "Math_atan2 (Num b) NegInf = (if 0 \<le> b then Num pi else Num (- pi))"
| "Math_atan2 PosInf (Num a) = Num (pi / 2)"
| "Math_atan2 NegInf (Num a) = Num (- (pi / 2))"
| "Math_atan2 PosInf PosInf = Num (pi / 4)"
| "Math_atan2 PosInf NegInf = Num (3 * pi / 4)"
| "Math_atan2 NegInf PosInf = Num (- (pi / 4))"
| "Math_atan2 NegInf NegInf = Num (- (3 * pi / 4))"

text \<open>\<^verbatim>\<open>Math.max\<close> and \<^verbatim>\<open>Math.min\<close> of two numbers return \<open>NaN\<close> when one of
  them is \<open>NaN\<close>.\<close>

definition Math_max :: "jsnum \<Rightarrow> jsnum \<Rightarrow> jsnum" where
  "Math_max u v = (if isNaN u \<or> isNaN v then NaN else if u < v then v else u)"

definition Math_min :: "jsnum \<Rightarrow> jsnum \<Rightarrow> jsnum" where
  "Math_min u v = (if isNaN u \<or> isNaN v then NaN else if v < u then v else u)"

text \<open>\<^verbatim>\<open>Math.round\<close> rounds to the nearest integer, a half upwards.\<close>

fun Math_round :: "jsnum \<Rightarrow> jsnum" where
  "Math_round (Num a) = Num (of_int \<lfloor>a + 1 / 2\<rfloor>)"
| "Math_round v = v"

text \<open>\<^verbatim>\<open>Math.pow(base, exponent)\<close>, in the case order of ECMAScript's
  \<open>Number::exponentiate\<close>. A negative base has a real power only for an integer
  exponent.\<close>

definition odd_integer :: "real \<Rightarrow> bool" where
  "odd_integer e = (e \<in> \<int> \<and> odd \<lfloor>e\<rfloor>)"

definition pow_finite :: "real \<Rightarrow> real \<Rightarrow> jsnum" where
  "pow_finite a e =
     (if 0 < a then Num (a powr e)
      else if e \<notin> \<int> then NaN
      else if odd_integer e then Num (- ((- a) powr e))
      else Num ((- a) powr e))"

fun Math_pow :: "jsnum \<Rightarrow> jsnum \<Rightarrow> jsnum" where
  "Math_pow u NaN = NaN"
| "Math_pow u (Num e) =
     (if e = 0 then Num 1
      else case u of
        NaN \<Rightarrow> NaN
      | PosInf \<Rightarrow> (if 0 < e then PosInf else Num 0)
      | NegInf \<Rightarrow> (if 0 < e then (if odd_integer e then NegInf else PosInf) else Num 0)
      | Num a \<Rightarrow> (if a = 0 then (if 0 < e then Num 0 else PosInf) else pow_finite a e))"
| "Math_pow u PosInf =
     (case u of
        NaN \<Rightarrow> NaN
      | PosInf \<Rightarrow> PosInf
      | NegInf \<Rightarrow> PosInf
      | Num a \<Rightarrow> (if 1 < \<bar>a\<bar> then PosInf else if \<bar>a\<bar> = 1 then NaN else Num 0))"
| "Math_pow u NegInf =
     (case u of
        NaN \<Rightarrow> NaN
      | PosInf \<Rightarrow> Num 0
      | NegInf \<Rightarrow> Num 0
      | Num a \<Rightarrow> (if 1 < \<bar>a\<bar> then Num 0 else if \<bar>a\<bar> = 1 then NaN else PosInf))"

text \<open>\<^verbatim>\<open>Number(v.toFixed(d))\<close>: the nearest multiple of \<open>10\<^sup>-\<^sup>d\<close>, a tie away from
  zero; a number of magnitude \<open>10\<^sup>2\<^sup>1\<close> or more, and a special value, is printed and read
  back unchanged.\<close>

fun toFixed :: "nat \<Rightarrow> jsnum \<Rightarrow> jsnum" where
  "toFixed d (Num a) =
     (if 10 ^ 21 \<le> \<bar>a\<bar> then Num a
      else Num (sgn a * of_int \<lfloor>\<bar>a\<bar> * 10 ^ d + 1 / 2\<rfloor> / 10 ^ d))"
| "toFixed d v = v"

section \<open>Errors\<close>

text \<open>
  Every failure of the engine is a \<^verbatim>\<open>throw new Error(message)\<close>. The model returns
  the error as a value, \<open>Inl e\<close>, one constructor for each message (the two range
  errors of the lunar orbit insertion share \<open>OutOfRange\<close>); the constructors carry
  the names of the specification's error kinds where it names one.
\<close>

datatype error =
    TimeNegative              \<comment> \<open>Time cannot be negative\<close>
  | TimeNotFinite             \<comment> \<open>Time must be finite\<close>
  | VelocityNotFinite         \<comment> \<open>Velocity must be finite\<close>
  | MissionTimeTooShort       \<comment> \<open>Mission time too short (minimum 6 minutes)\<close>
  | MissionTimeTooLong        \<comment> \<open>Mission time too long (maximum 1 year)\<close>
  | DeltaVNegative            \<comment> \<open>Delta-V cannot be negative\<close>
  | DeltaVTooLarge            \<comment> \<open>Delta-V exceeds reasonable chemical propulsion limits\<close>
  | InvalidPositionVectors    \<comment> \<open>Invalid position vectors: magnitudes too small\<close>
  | TimeOfFlightNotPositive   \<comment> \<open>Time of flight must be positive\<close>
  | MuNotPositive             \<comment> \<open>Gravitational parameter must be positive\<close>
  | DegenerateGeometry        \<comment> \<open>Degenerate Lambert problem: positions too close\<close>
  | ImpossibleGeometry        \<comment> \<open>Lambert problem: impossible geometry (lambda >= 1)\<close>
  | TimeTooShort              \<comment> \<open>Time of flight too short\<close>
  | Unsupported               \<comment> \<open>Multi-revolution Lambert transfers not implemented\<close>
  | DerivativeTooSmall        \<comment> \<open>Izzo solver: derivative too small in Householder iteration\<close>
  | ConvergenceFailure        \<comment> \<open>Izzo solver did not converge after n iterations\<close>
  | InvalidSemiMajorAxis      \<comment> \<open>Invalid semi-major axis in Lagrange coefficient calculation\<close>
  | SingularSolution          \<comment> \<open>Lambert solver: g coefficient too small, singular solution\<close>
  | OutOfRange                \<comment> \<open>Hyperbolic excess velocity out of realistic range;
                                  Target orbit radius out of valid range\<close>
  | InvalidDryMass            \<comment> \<open>Dry mass must be positive and finite\<close>
  | InvalidSpecificImpulse    \<comment> \<open>Specific impulse must be positive and finite\<close>
  | InvalidThrustToWeight     \<comment> \<open>Thrust-to-weight ratio must be between 0 and 2.0\<close>
  | InvalidMassRatio          \<comment> \<open>Invalid mass ratio calculated from Tsiolkovsky equation\<close>
  | NegativePropellantMass    \<comment> \<open>Negative propellant mass calculated\<close>
  | NegativeBurnTime          \<comment> \<open>Negative burn time calculated\<close>
  | InvalidLaunchDate         \<comment> \<open>Invalid launch date provided\<close>
  | InvalidTransferType       \<comment> \<open>Invalid transfer type\<close>

section \<open>UnitConverter\<close>

definition SECONDS_PER_HOUR :: jsnum where
  "SECONDS_PER_HOUR = Num 3600"

definition HOURS_PER_SECOND :: jsnum where
  "HOURS_PER_SECOND = Num 1 / Num 3600"

definition MS_PER_KMS :: jsnum where
  "MS_PER_KMS = Num 1000"

definition hoursToSeconds :: "jsnum \<Rightarrow> error + jsnum" where
  "hoursToSeconds hours =
     (if hours < Num 0 then Inl TimeNegative
      else if \<not> isFinite hours then Inl TimeNotFinite
      else Inr (hours * SECONDS_PER_HOUR))"

definition secondsToHours :: "jsnum \<Rightarrow> error + jsnum" where
  "secondsToHours seconds =
     (if seconds < Num 0 then Inl TimeNegative
      else if \<not> isFinite seconds then Inl TimeNotFinite
      else Inr (seconds * HOURS_PER_SECOND))"

definition kmPerSecToMPerSec :: "jsnum \<Rightarrow> error + jsnum" where
  "kmPerSecToMPerSec kmPerSec =
     (if \<not> isFinite kmPerSec then Inl VelocityNotFinite
      else Inr (kmPerSec * MS_PER_KMS))"

definition validateMissionTime :: "jsnum \<Rightarrow> error + unit" where
  "validateMissionTime hours =
     (if hours < Num (1 / 10) then Inl MissionTimeTooShort
      else if Num 8760 < hours then Inl MissionTimeTooLong
      else Inr ())"

definition validateDeltaV :: "jsnum \<Rightarrow> error + unit" where
  "validateDeltaV deltaV_kms =
     (if deltaV_kms < Num 0 then Inl DeltaVNegative
      else if Num 20 < deltaV_kms then Inl DeltaVTooLarge
      else Inr ())"

text \<open>A call fails when it returns an error.\<close>

definition fails :: "error + 'a \<Rightarrow> bool" where
  "fails r = (case r of Inl e \<Rightarrow> True | Inr v \<Rightarrow> False)"

section \<open>Constants and vectors\<close>

definition MU_EARTH :: jsnum where "MU_EARTH = Num 398600.4418"
definition MU_MOON :: jsnum where "MU_MOON = Num 4902.7779"
definition EARTH_RADIUS :: jsnum where "EARTH_RADIUS = Num 6371"
definition MOON_RADIUS :: jsnum where "MOON_RADIUS = Num 1737"
definition EARTH_MOON_DISTANCE :: jsnum where "EARTH_MOON_DISTANCE = Num 384400"
definition EARTH_LOW_ORBIT :: jsnum where "EARTH_LOW_ORBIT = Num 200"
definition MOON_ORBIT_ALT :: jsnum where "MOON_ORBIT_ALT = Num 100"
definition SPECIFIC_IMPULSE :: jsnum where "SPECIFIC_IMPULSE = Num 450"
definition SPACECRAFT_DRY_MASS :: jsnum where "SPACECRAFT_DRY_MASS = Num 5000"

text \<open>The class \<^verbatim>\<open>Vector3D\<close>; \<open>Vector3D a b c\<close> is \<^verbatim>\<open>new Vector3D(a, b, c)\<close>.\<close>

datatype Vector3D = Vector3D (vec_x: jsnum) (vec_y: jsnum) (vec_z: jsnum)

definition Vector3D_add :: "Vector3D \<Rightarrow> Vector3D \<Rightarrow> Vector3D" where
  "Vector3D_add a b = Vector3D (vec_x a + vec_x b) (vec_y a + vec_y b) (vec_z a + vec_z b)"

definition Vector3D_subtract :: "Vector3D \<Rightarrow> Vector3D \<Rightarrow> Vector3D" where
  "Vector3D_subtract a b =
     Vector3D (vec_x a - vec_x b) (vec_y a - vec_y b) (vec_z a - vec_z b)"

definition Vector3D_multiply :: "Vector3D \<Rightarrow> jsnum \<Rightarrow> Vector3D" where
  "Vector3D_multiply v scalar =
     Vector3D (vec_x v * scalar) (vec_y v * scalar) (vec_z v * scalar)"

definition Vector3D_dot :: "Vector3D \<Rightarrow> Vector3D \<Rightarrow> jsnum" where
  "Vector3D_dot a b = vec_x a * vec_x b + vec_y a * vec_y b + vec_z a * vec_z b"

definition Vector3D_cross :: "Vector3D \<Rightarrow> Vector3D \<Rightarrow> Vector3D" where
  "Vector3D_cross a b =
     Vector3D (vec_y a * vec_z b - vec_z a * vec_y b)
              (vec_z a * vec_x b - vec_x a * vec_z b)
              (vec_x a * vec_y b - vec_y a * vec_x b)"

definition magnitude :: "Vector3D \<Rightarrow> jsnum" where
  "magnitude v = Math_sqrt (vec_x v * vec_x v + vec_y v * vec_y v + vec_z v * vec_z v)"


text \<open>
  With exact reals the square of a component that is not \<open>0\<close> is never \<open>0\<close>, so
  \<open>magnitude\<close> is \<open>0\<close> for the zero vector only. In doubles the square underflows
  to \<open>0\<close> for a component below about \<open>1.5 \<times> 10\<^sup>-\<^sup>1\<^sup>6\<^sup>2\<close> in absolute value, and the
  sum overflows for a component above about \<open>1.3 \<times> 10\<^sup>1\<^sup>5\<^sup>4\<close>; such vectors are outside
  what the model represents.
\<close>


section \<open>Lambert solver\<close>

datatype solution_type = Prograde | Retrograde

record LambertResult =
  velocityDeparture :: Vector3D
  velocityArrival :: Vector3D
  convergenceIterations :: nat
  solutionType :: solution_type

subsection \<open>IzzoSolver\<close>

definition computeMinimumEnergyTime :: "jsnum \<Rightarrow> jsnum" where
  "computeMinimumEnergyTime lambda =
     (Num 1 / Num 3) * (Num 1 - lambda * lambda * lambda)"

definition calculateY :: "jsnum \<Rightarrow> jsnum \<Rightarrow> jsnum" where
  "calculateY x lambda = Math_sqrt (Num 1 - lambda * lambda * (Num 1 - x * x))"

definition calculateTime :: "jsnum \<Rightarrow> jsnum \<Rightarrow> jsnum" where
  "calculateTime x y =
     (if x < Num 0 then
        (let sqrt_neg_x = Math_sqrt (- x)
         in (Math_asinh (sqrt_neg_x * y) + sqrt_neg_x * y) / Math_pow (- x) (Num 1.5))
      else if Num 0 < x then
        (let sqrt_x = Math_sqrt x
         in if sqrt_x * y \<le> Num 1
            then (Math_asin (sqrt_x * y) + sqrt_x * y) / Math_pow x (Num 1.5)
            else (Num pi - Math_asin (sqrt_x * y) + sqrt_x * y) / Math_pow x (Num 1.5))
      else (Num 2 / Num 3) * (Num 1 - y * y * y))"

definition calculateTimeDerivative :: "jsnum \<Rightarrow> jsnum \<Rightarrow> jsnum" where
  "calculateTimeDerivative x y =
     (if x < Num 0 then
        (let sqrt_neg_x = Math_sqrt (- x)
         in (Num 3 * Math_asinh (sqrt_neg_x * y) + Num 3 * sqrt_neg_x * y
               + sqrt_neg_x * y * y * y) / (Num 2 * Math_pow (- x) (Num 2.5)))
      else if Num 0 < x then
        (let sqrt_x = Math_sqrt x
         in if sqrt_x * y \<le> Num 1
            then (Num 3 * Math_asin (sqrt_x * y) + Num 3 * sqrt_x * y
                    - sqrt_x * y * y * y) / (Num 2 * Math_pow x (Num 2.5))
            else (Num 3 * (Num pi - Math_asin (sqrt_x * y)) + Num 3 * sqrt_x * y
                    - sqrt_x * y * y * y) / (Num 2 * Math_pow x (Num 2.5)))
      else - y * y)"

definition calculateTimeSecondDerivative :: "jsnum \<Rightarrow> jsnum \<Rightarrow> jsnum \<Rightarrow> jsnum" where
  "calculateTimeSecondDerivative x y lambda =
     (let epsilon = Num (1 / 10 ^ 8);
          dT_dx_plus =
            calculateTimeDerivative (x + epsilon) (calculateY (x + epsilon) lambda);
          dT_dx_minus =
            calculateTimeDerivative (x - epsilon) (calculateY (x - epsilon) lambda)
      in (dT_dx_plus - dT_dx_minus) / (Num 2 * epsilon))"

text \<open>
  One pass through the body of the \<^verbatim>\<open>while\<close> loop of \<^verbatim>\<open>solveForX\<close>: the loop
  stops with the current \<open>x\<close> (\<open>Converged\<close>), throws (\<open>Abort\<close>), or goes on with
  the next value of \<open>x\<close>.
\<close>

datatype step = Converged | Abort error | Next jsnum

definition limited_delta :: "jsnum \<Rightarrow> jsnum" where
  "limited_delta delta_x =
     (let max_step = Num (1 / 2)
      in sgn delta_x * Math_min \<bar>delta_x\<bar> max_step)"

definition householder_step :: "jsnum \<Rightarrow> jsnum \<Rightarrow> jsnum \<Rightarrow> jsnum \<Rightarrow> step" where
  "householder_step lambda T tolerance x =
     (let y = calculateY x lambda;
          T_computed = calculateTime x y;
          F = T_computed - T
      in if \<bar>F\<bar> < tolerance then Converged
         else
           let dT_dx = calculateTimeDerivative x y;
               d2T_dx2 = calculateTimeSecondDerivative x y lambda;
               denominator = dT_dx - F * d2T_dx2 / (Num 2 * dT_dx)
           in if \<bar>denominator\<bar> < Num (1 / 10 ^ 15) then Abort DerivativeTooSmall
              else
                let delta_x = (- F) / denominator;
                    x1 = x + limited_delta delta_x
                in Next (Math_max (Num (- 1)) (Math_min x1 (Num 50))))"

text \<open>
  The loop, with the counter \<open>iterations\<close> of the source. It returns the final value
  of the counter next to the outcome: the \<open>x\<close> it converged at, or the error thrown.
\<close>

function solveForX_loop ::
  "jsnum \<Rightarrow> jsnum \<Rightarrow> jsnum \<Rightarrow> nat \<Rightarrow> nat \<Rightarrow> jsnum \<Rightarrow> nat \<times> (error + jsnum)" where
  "solveForX_loop lambda T tolerance maxIterations iterations x =
     (if iterations < maxIterations then
        (case householder_step lambda T tolerance x of
           Converged \<Rightarrow> (iterations, Inr x)
         | Abort e \<Rightarrow> (iterations, Inl e)
         | Next x1 \<Rightarrow> solveForX_loop lambda T tolerance maxIterations (Suc iterations) x1)
      else (iterations, Inl ConvergenceFailure))"
  by pat_completeness auto
termination
  by (relation "measure (\<lambda>(lambda, T, tolerance, maxIterations, iterations, x).
        maxIterations - iterations)") auto

declare solveForX_loop.simps [simp del]

definition initial_guess :: "jsnum \<Rightarrow> jsnum \<Rightarrow> jsnum" where
  "initial_guess lambda T =
     (if Num 1 / Num 3 \<le> T then Math_pow (T * Num 3) (Num 1 / Num 3) - Num 1
      else Num 5 * T * T * T / (Num 2 * (Num 1 - lambda * lambda * lambda)))"

definition solveForX :: "jsnum \<Rightarrow> jsnum \<Rightarrow> jsnum \<Rightarrow> nat \<Rightarrow> error + jsnum" where
  "solveForX lambda T tolerance maxIterations =
     snd (solveForX_loop lambda T tolerance maxIterations 0 (initial_guess lambda T))"

record LagrangeCoefficients =
  lc_f :: jsnum
  lc_g :: jsnum
  lc_fdot :: jsnum
  lc_gdot :: jsnum

definition calculateLagrangeCoefficients ::
  "jsnum \<Rightarrow> jsnum \<Rightarrow> jsnum \<Rightarrow> jsnum \<Rightarrow> jsnum \<Rightarrow> jsnum \<Rightarrow> jsnum \<Rightarrow> jsnum
     \<Rightarrow> error + LagrangeCoefficients" where
  "calculateLagrangeCoefficients x lambda r1_mag r2_mag s T timeOfFlight mu =
     (let y = calculateY x lambda;
          a = s / (Num 2 * (Num 1 - x * x))
      in if a \<le> Num 0 then Inl InvalidSemiMajorAxis
         else
           let sqrt_mu = Math_sqrt mu;
               sqrt_a = Math_sqrt a;
               f = Num 1 - (a / r1_mag) * (Num 1 - x * x);
               g = a * (s - r1_mag - r2_mag) * sqrt_a / (sqrt_mu * r1_mag * y);
               gdot = Num 1 - (a / r2_mag) * (Num 1 - x * x);
               fdot = (f * gdot - Num 1) / g
           in Inr \<lparr> lc_f = f, lc_g = g, lc_fdot = fdot, lc_gdot = gdot \<rparr>)"

subsection \<open>LambertSolver.solve\<close>

text \<open>
  The transfer angle, as \<^verbatim>\<open>solve\<close> computes it from the two positions.
\<close>

definition transfer_angle :: "Vector3D \<Rightarrow> Vector3D \<Rightarrow> bool \<Rightarrow> jsnum" where
  "transfer_angle r1 r2 prograde =
     (let r1_mag = magnitude r1;
          r2_mag = magnitude r2;
          cos_dnu = Vector3D_dot r1 r2 / (r1_mag * r2_mag);
          cos_dnu_clamped = Math_max (Num (- 1)) (Math_min (Num 1) cos_dnu);
          cross_product = Vector3D_cross r1 r2;
          sin_dnu = magnitude cross_product / (r1_mag * r2_mag);
          dnu0 = Math_atan2 sin_dnu cos_dnu_clamped;
          dnu = (if dnu0 < Num 0 then dnu0 + Num 2 * Num pi else dnu0)
      in if prograde then dnu else Num 2 * Num pi - dnu)"

text \<open>
  \<^verbatim>\<open>solve\<close> with all six arguments given (the defaults of the source are
  \<open>mu = MU_EARTH\<close>, \<open>prograde = true\<close>, \<open>multiRevs = 0\<close>). The check of the
  determinant \<open>f gdot - fdot g\<close> only writes a line with \<^verbatim>\<open>console.warn\<close> and
  changes no value; it is left out.
\<close>

definition solve ::
  "Vector3D \<Rightarrow> Vector3D \<Rightarrow> jsnum \<Rightarrow> jsnum \<Rightarrow> bool \<Rightarrow> jsnum \<Rightarrow> error + LambertResult" where
  "solve r1 r2 timeOfFlight mu prograde multiRevs =
     (let tolerance = Num (1 / 10 ^ 14);
          maxIterations = 30;
          r1_mag = magnitude r1;
          r2_mag = magnitude r2
      in if r1_mag < Num (1 / 10 ^ 6) \<or> r2_mag < Num (1 / 10 ^ 6)
         then Inl InvalidPositionVectors
         else if timeOfFlight \<le> Num 0 then Inl TimeOfFlightNotPositive
         else if mu \<le> Num 0 then Inl MuNotPositive
         else
           let c = magnitude (Vector3D_subtract r2 r1);
               s = (r1_mag + r2_mag + c) / Num 2
           in if c < Num (1 / 10 ^ 6) then Inl DegenerateGeometry
              else
                let dnu = transfer_angle r1 r2 prograde;
                    T = Math_sqrt (Num 2 * mu / (s * s * s)) * timeOfFlight;
                    lambda = Math_sqrt (r1_mag * r2_mag) * Math_cos (dnu / Num 2) / s
                in if Num 1 \<le> \<bar>lambda\<bar> then Inl ImpossibleGeometry
                   else if multiRevs \<noteq> Num 0 then Inl Unsupported
                   else if T < computeMinimumEnergyTime lambda then Inl TimeTooShort
                   else
                     (case solveForX lambda T tolerance maxIterations of
                        Inl e \<Rightarrow> Inl e
                      | Inr x \<Rightarrow>
                        (case calculateLagrangeCoefficients
                                x lambda r1_mag r2_mag s T timeOfFlight mu of
                           Inl e \<Rightarrow> Inl e
                         | Inr lc \<Rightarrow>
                             if \<bar>lc_g lc\<bar> < Num (1 / 10 ^ 15) then Inl SingularSolution
                             else
                               let v1 = Vector3D_multiply
                                          (Vector3D_subtract r2
                                             (Vector3D_multiply r1 (lc_f lc)))
                                          (Num 1 / lc_g lc);
                                   v2 = Vector3D_add
                                          (Vector3D_multiply v1 (lc_fdot lc))
                                          (Vector3D_multiply r1 (lc_gdot lc / lc_g lc))
                               in Inr \<lparr> velocityDeparture = v1,
                                        velocityArrival = v2,
                                        convergenceIterations = maxIterations,
                                        solutionType =
                                          (if prograde then Prograde else Retrograde) \<rparr>)))"

section \<open>Patched-conic Earth-Moon transfer\<close>

text \<open>
  The result interfaces of the engine. A field that shares its name with a local
  variable of the source carries the initials of its interface as a prefix
  (\<open>pc_lunarSOI\<close> is the field \<^verbatim>\<open>lunarSOI\<close> of \<^verbatim>\<open>PatchedConicDetails\<close>).
\<close>

record OrbitalElements =
  semiMajorAxis :: jsnum
  eccentricity :: jsnum
  inclination :: jsnum
  rightAscension :: jsnum
  argOfPerigee :: jsnum
  trueAnomaly :: jsnum

record HohmannResult =
  deltaV1 :: jsnum
  deltaV2 :: jsnum
  transferTime :: jsnum
  transferOrbit :: OrbitalElements

record PatchedConicDetails =
  pc_lunarSOI :: jsnum
  pc_v_infinity :: jsnum
  pc_v_at_soi_earth_frame :: jsnum
  pc_v_soi_entry_lunar_frame :: jsnum
  pc_moon_orbital_velocity :: jsnum
  pc_energy_balance_check :: bool

record EarthMoonTransfer =
  em_earthEscape :: HohmannResult
  em_lunarCapture :: HohmannResult
  em_totalDeltaV :: jsnum
  em_totalTime :: jsnum
  em_lunarSOI :: jsnum
  em_v_infinity :: jsnum
  em_patchedConicDetails :: PatchedConicDetails

definition getLunarSOI :: jsnum where
  "getLunarSOI =
     (let earthMoonDistance = EARTH_MOON_DISTANCE;
          massRatio = MU_MOON / MU_EARTH
      in earthMoonDistance * Math_pow massRatio (Num 2 / Num 5))"

definition calculateTransferTime :: "jsnum \<Rightarrow> jsnum \<Rightarrow> jsnum \<Rightarrow> jsnum" where
  "calculateTransferTime r1 r2 mu =
     (let a = (r1 + r2) / Num 2;
          period = Num 2 * Num pi * Math_sqrt (Math_pow a (Num 3) / mu)
      in period / Num 2)"

definition calculateLunarCaptureTime :: "jsnum \<Rightarrow> jsnum \<Rightarrow> jsnum \<Rightarrow> jsnum" where
  "calculateLunarCaptureTime r_soi r_parking v_infinity =
     (let characteristic_time = Math_sqrt (Math_pow r_soi (Num 3) / MU_MOON);
          hyperbolic_factor =
            Num 1 + (v_infinity * v_infinity * r_soi) / (Num 2 * MU_MOON)
      in characteristic_time * Math_log hyperbolic_factor)"

definition validateEnergyBalance :: "jsnum \<Rightarrow> jsnum \<Rightarrow> jsnum \<Rightarrow> jsnum \<Rightarrow> bool" where
  "validateEnergyBalance r1 r2 v1 v2 =
     (let energy1 = v1 * v1 / Num 2 - MU_EARTH / r1;
          energy2 = v2 * v2 / Num 2 - MU_EARTH / r2;
          energy_error = \<bar>energy1 - energy2\<bar> / \<bar>energy1\<bar>
      in energy_error < Num (1 / 10 ^ 6))"

definition zero_angles :: "jsnum \<Rightarrow> jsnum \<Rightarrow> OrbitalElements" where
  \<comment> \<open>an orbit in the reference plane: inclination and the three angles are 0\<close>
  "zero_angles a e =
     \<lparr> semiMajorAxis = a, eccentricity = e, inclination = Num 0,
       rightAscension = Num 0, argOfPerigee = Num 0, trueAnomaly = Num 0 \<rparr>"

definition calculateEarthMoonTransfer :: "error + EarthMoonTransfer" where
  "calculateEarthMoonTransfer =
     (let r_earth_parking = EARTH_RADIUS + EARTH_LOW_ORBIT;
          r_moon_parking = MOON_RADIUS + MOON_ORBIT_ALT;
          lunarSOI = getLunarSOI;
          r_earth_moon = EARTH_MOON_DISTANCE;
          r_soi_boundary = r_earth_moon - lunarSOI;
          v_earth_circular = Math_sqrt (MU_EARTH / r_earth_parking);
          specific_energy_transfer = (- MU_EARTH) / (Num 2 * r_soi_boundary);
          v_departure_magnitude =
            Math_sqrt (Num 2 * (specific_energy_transfer + MU_EARTH / r_earth_parking));
          deltaV_earth_escape = v_departure_magnitude - v_earth_circular;
          v_at_soi_earth_frame = Math_sqrt (Num 2 * MU_EARTH / r_soi_boundary);
          v_moon_orbital = Math_sqrt (MU_EARTH / r_earth_moon);
          v_infinity = \<bar>v_at_soi_earth_frame - v_moon_orbital\<bar>;
          v_soi_entry_lunar_frame =
            Math_sqrt (v_infinity * v_infinity + Num 2 * MU_MOON / lunarSOI);
          v_periapsis_capture =
            Math_sqrt (MU_MOON * (Num 2 / r_moon_parking
                                   - Num 2 / (lunarSOI + r_moon_parking)));
          v_lunar_circular = Math_sqrt (MU_MOON / r_moon_parking);
          deltaV_lunar_capture = v_soi_entry_lunar_frame - v_periapsis_capture;
          deltaV_lunar_insertion = v_periapsis_capture - v_lunar_circular;
          total_lunar_deltaV = deltaV_lunar_capture + deltaV_lunar_insertion;
          earthTransferTime =
            calculateTransferTime r_earth_parking r_soi_boundary MU_EARTH;
          lunarCaptureTime = calculateLunarCaptureTime lunarSOI r_moon_parking v_infinity
      in case secondsToHours earthTransferTime of
           Inl e \<Rightarrow> Inl e
         | Inr earthHours \<Rightarrow>
           (case secondsToHours lunarCaptureTime of
              Inl e \<Rightarrow> Inl e
            | Inr lunarHours \<Rightarrow>
              (case secondsToHours (earthTransferTime + lunarCaptureTime) of
                 Inl e \<Rightarrow> Inl e
               | Inr totalHours \<Rightarrow>
                   Inr \<lparr> em_earthEscape =
                           \<lparr> deltaV1 = deltaV_earth_escape,
                             deltaV2 = Num 0,
                             transferTime = earthHours,
                             transferOrbit =
                               zero_angles
                                 ((r_earth_parking + r_soi_boundary) / Num 2)
                                 (\<bar>r_soi_boundary - r_earth_parking\<bar>
                                    / (r_earth_parking + r_soi_boundary)) \<rparr>,
                         em_lunarCapture =
                           \<lparr> deltaV1 = deltaV_lunar_capture,
                             deltaV2 = deltaV_lunar_insertion,
                             transferTime = lunarHours,
                             transferOrbit =
                               zero_angles
                                 ((lunarSOI + r_moon_parking) / Num 2)
                                 ((lunarSOI - r_moon_parking)
                                    / (lunarSOI + r_moon_parking)) \<rparr>,
                         em_totalDeltaV = deltaV_earth_escape + total_lunar_deltaV,
                         em_totalTime = totalHours,
                         em_lunarSOI = lunarSOI,
                         em_v_infinity = v_infinity,
                         em_patchedConicDetails =
                           \<lparr> pc_lunarSOI = lunarSOI,
                             pc_v_infinity = v_infinity,
                             pc_v_at_soi_earth_frame = v_at_soi_earth_frame,
                             pc_v_soi_entry_lunar_frame = v_soi_entry_lunar_frame,
                             pc_moon_orbital_velocity = v_moon_orbital,
                             pc_energy_balance_check =
                               validateEnergyBalance r_earth_parking r_soi_boundary
                                 v_departure_magnitude v_at_soi_earth_frame \<rparr> \<rparr>)))"

section \<open>Lunar orbit insertion\<close>

datatype loi_strategy = Direct | Capture_orbit | Weak_stability_boundary

record Feasibility =
  propulsive :: bool
  thermal :: bool
  navigation :: bool

record LOIResult =
  loi_strategy :: loi_strategy
  loi_totalDeltaV :: jsnum
  loi_captureOrbitDeltaV :: jsnum
  loi_insertionDeltaV :: jsnum
  loi_captureOrbitElements :: OrbitalElements
  loi_finalOrbitElements :: OrbitalElements
  loi_totalTime :: jsnum
  loi_fuelEfficiency :: jsnum
  loi_feasibility :: Feasibility

definition assessFeasibility :: "jsnum \<Rightarrow> jsnum \<Rightarrow> Feasibility" where
  "assessFeasibility totalDeltaV r_target =
     \<lparr> propulsive = (totalDeltaV < Num 2.5),
       thermal = (MOON_RADIUS + Num 10 < r_target),
       navigation = (totalDeltaV < Num 3) \<rparr>"

definition getOptimalPeriapsis :: "jsnum \<Rightarrow> jsnum \<Rightarrow> jsnum" where
  "getOptimalPeriapsis v_infinity r_target =
     (let min_periapsis = MOON_RADIUS + Num 15;
          max_periapsis = r_target * Num 0.8;
          thermal_factor = Math_min (v_infinity / Num 2) (Num 1);
          optimal_periapsis =
            min_periapsis + thermal_factor * (max_periapsis - min_periapsis)
      in optimal_periapsis)"

definition calculateDirectInsertion :: "jsnum \<Rightarrow> jsnum \<Rightarrow> LOIResult" where
  "calculateDirectInsertion v_infinity r_target =
     (let v_periapsis_hyperbolic =
            Math_sqrt (v_infinity * v_infinity + Num 2 * MU_MOON / r_target);
          v_circular = Math_sqrt (MU_MOON / r_target);
          totalDeltaV = v_periapsis_hyperbolic - v_circular;
          feasibility = assessFeasibility totalDeltaV r_target;
          finalOrbitElements = zero_angles r_target (Num 0)
      in \<lparr> loi_strategy = Direct,
           loi_totalDeltaV = totalDeltaV,
           loi_captureOrbitDeltaV = Num 0,
           loi_insertionDeltaV = totalDeltaV,
           loi_captureOrbitElements = finalOrbitElements,
           loi_finalOrbitElements = finalOrbitElements,
           loi_totalTime = Num 0.1,
           loi_fuelEfficiency = Num 100,
           loi_feasibility = feasibility \<rparr>)"

definition calculateHighEnergyCapture ::
  "jsnum \<Rightarrow> jsnum \<Rightarrow> jsnum \<Rightarrow> error + LOIResult" where
  "calculateHighEnergyCapture v_infinity r_target r_periapsis =
     (let r_intermediate = r_target * Num 3;
          v_periapsis_hyperbolic =
            Math_sqrt (v_infinity * v_infinity + Num 2 * MU_MOON / r_periapsis);
          energy_intermediate = (- MU_MOON) / (r_periapsis + r_intermediate);
          v_periapsis_intermediate =
            Math_sqrt (Num 2 * (energy_intermediate + MU_MOON / r_periapsis));
          captureOrbitDeltaV = v_periapsis_hyperbolic - v_periapsis_intermediate;
          v_intermediate =
            Math_sqrt (MU_MOON * (Num 2 / r_intermediate
                                   - Num 2 / (r_periapsis + r_intermediate)));
          v_circular = Math_sqrt (MU_MOON / r_target);
          insertionDeltaV = \<bar>v_circular - v_intermediate\<bar>;
          totalDeltaV = captureOrbitDeltaV + insertionDeltaV;
          a_intermediate = (r_periapsis + r_intermediate) / Num 2;
          period = Num 2 * Num pi
                     * Math_sqrt (Math_pow a_intermediate (Num 3) / MU_MOON)
      in case secondsToHours period of
           Inl e \<Rightarrow> Inl e
         | Inr totalTime \<Rightarrow>
             Inr \<lparr> loi_strategy = Capture_orbit,
                   loi_totalDeltaV = totalDeltaV,
                   loi_captureOrbitDeltaV = captureOrbitDeltaV,
                   loi_insertionDeltaV = insertionDeltaV,
                   loi_captureOrbitElements =
                     zero_angles a_intermediate
                       ((r_intermediate - r_periapsis) / (r_intermediate + r_periapsis)),
                   loi_finalOrbitElements = zero_angles r_target (Num 0),
                   loi_totalTime = totalTime,
                   loi_fuelEfficiency = Num 0,
                   loi_feasibility = assessFeasibility totalDeltaV r_target \<rparr>)"

definition calculateCaptureOrbitInsertion ::
  "jsnum \<Rightarrow> jsnum \<Rightarrow> jsnum \<Rightarrow> error + LOIResult" where
  "calculateCaptureOrbitInsertion v_infinity r_target r_periapsis =
     (let v_periapsis_hyperbolic =
            Math_sqrt (v_infinity * v_infinity + Num 2 * MU_MOON / r_periapsis);
          specific_energy_target = (- MU_MOON) / (Num 2 * r_target);
          v_periapsis_capture =
            Math_sqrt (Num 2 * (specific_energy_target + MU_MOON / r_periapsis));
          captureOrbitDeltaV = v_periapsis_hyperbolic - v_periapsis_capture;
          r_apoapsis = MU_MOON / (Num 2 * specific_energy_target) - r_periapsis
      in if MOON_RADIUS * Num 100 < r_apoapsis
         then calculateHighEnergyCapture v_infinity r_target r_periapsis
         else
           let v_apoapsis_capture =
                 Math_sqrt (Num 2 * (specific_energy_target + MU_MOON / r_apoapsis));
               v_circular = Math_sqrt (MU_MOON / r_target);
               insertionDeltaV = \<bar>v_circular - v_apoapsis_capture\<bar>;
               totalDeltaV = captureOrbitDeltaV + insertionDeltaV;
               a_capture = (r_periapsis + r_apoapsis) / Num 2;
               period_capture =
                 Num 2 * Num pi * Math_sqrt (Math_pow a_capture (Num 3) / MU_MOON)
           in case secondsToHours (period_capture / Num 2) of
                Inl e \<Rightarrow> Inl e
              | Inr totalTime \<Rightarrow>
                  Inr \<lparr> loi_strategy = Capture_orbit,
                        loi_totalDeltaV = totalDeltaV,
                        loi_captureOrbitDeltaV = captureOrbitDeltaV,
                        loi_insertionDeltaV = insertionDeltaV,
                        loi_captureOrbitElements =
                          zero_angles a_capture
                            ((r_apoapsis - r_periapsis) / (r_apoapsis + r_periapsis)),
                        loi_finalOrbitElements = zero_angles r_target (Num 0),
                        loi_totalTime = totalTime,
                        loi_fuelEfficiency = Num 0,
                        loi_feasibility = assessFeasibility totalDeltaV r_target \<rparr>)"

text \<open>
  The optional argument \<^verbatim>\<open>r_periapsis\<close> is \<open>None\<close> when the caller leaves it out.
  \<^verbatim>\<open>r_periapsis || ...\<close> takes the default also for the falsy numbers \<open>0\<close> and
  \<open>NaN\<close>.
\<close>

definition falsy :: "jsnum \<Rightarrow> bool" where
  "falsy u = (u = Num 0 \<or> isNaN u)"

definition calculateOptimalLOI ::
  "jsnum \<Rightarrow> jsnum \<Rightarrow> jsnum option \<Rightarrow> error + LOIResult" where
  "calculateOptimalLOI v_infinity r_target r_periapsis =
     (if v_infinity \<le> Num 0 \<or> Num 5 < v_infinity then Inl OutOfRange
      else if r_target \<le> MOON_RADIUS \<or> MOON_RADIUS * Num 10 < r_target
      then Inl OutOfRange
      else
        let directResult = calculateDirectInsertion v_infinity r_target
        in case calculateCaptureOrbitInsertion v_infinity r_target
                  (case r_periapsis of
                     None \<Rightarrow> getOptimalPeriapsis v_infinity r_target
                   | Some rp \<Rightarrow>
                       if falsy rp then getOptimalPeriapsis v_infinity r_target else rp) of
             Inl e \<Rightarrow> Inl e
           | Inr captureOrbitResult \<Rightarrow>
               if loi_totalDeltaV captureOrbitResult < loi_totalDeltaV directResult
               then Inr (captureOrbitResult
                          \<lparr> loi_strategy := Capture_orbit,
                            loi_fuelEfficiency :=
                              (loi_totalDeltaV directResult
                                 / loi_totalDeltaV captureOrbitResult - Num 1)
                              * Num 100 \<rparr>)
               else Inr (directResult
                          \<lparr> loi_strategy := Direct, loi_fuelEfficiency := Num 100 \<rparr>))"

section \<open>Fuel optimizer\<close>

record FuelOptimization =
  fo_massRatio :: jsnum
  fo_propellantMass :: jsnum
  fo_specificImpulse :: jsnum
  fo_burnTime :: jsnum

definition calculateGravityLossFactor :: "jsnum \<Rightarrow> jsnum \<Rightarrow> jsnum" where
  "calculateGravityLossFactor burnTime twRatio =
     (if burnTime < Num 60 then Num 0
      else
        let timeFactor = Math_min (burnTime / Num 600) (Num 1);
            thrustFactor = Math_max (Num 0.1) (Num 1 / twRatio)
        in Num 0.05 * timeFactor * thrustFactor)"

definition calculateVariableMassBurnTime ::
  "jsnum \<Rightarrow> jsnum \<Rightarrow> jsnum \<Rightarrow> jsnum \<Rightarrow> jsnum \<Rightarrow> jsnum" where
  "calculateVariableMassBurnTime m0 mf twRatio ve g0 =
     (let F = twRatio * m0 * g0;
          massFlowRate = F / ve;
          propellantMass = m0 - mf;
          burnTimeConstantThrust = propellantMass / massFlowRate
      in if Num 0.5 < twRatio then
           let gravityLossFactor =
                 calculateGravityLossFactor burnTimeConstantThrust twRatio;
               correctedBurnTime = burnTimeConstantThrust * (Num 1 + gravityLossFactor)
           in Math_min correctedBurnTime (burnTimeConstantThrust * Num 1.2)
         else burnTimeConstantThrust)"

text \<open>
  \<^verbatim>\<open>FuelOptimizer.calculate\<close> with its four arguments given. The two
  \<^verbatim>\<open>console.warn\<close> lines write a diagnostic and change no value; of the second only
  the call of \<^verbatim>\<open>secondsToHours\<close> in its message is kept, since it can throw.
\<close>

definition FuelOptimizer_calculate ::
  "jsnum \<Rightarrow> jsnum \<Rightarrow> jsnum \<Rightarrow> jsnum \<Rightarrow> error + FuelOptimization" where
  "FuelOptimizer_calculate deltaV dryMass specificImpulse thrustToWeightRatio =
     (case validateDeltaV deltaV of
        Inl e \<Rightarrow> Inl e
      | Inr _ \<Rightarrow>
        if dryMass \<le> Num 0 \<or> \<not> isFinite dryMass then Inl InvalidDryMass
        else if specificImpulse \<le> Num 0 \<or> \<not> isFinite specificImpulse
        then Inl InvalidSpecificImpulse
        else if thrustToWeightRatio \<le> Num 0 \<or> Num 2 < thrustToWeightRatio
        then Inl InvalidThrustToWeight
        else
          (case kmPerSecToMPerSec deltaV of
             Inl e \<Rightarrow> Inl e
           | Inr deltaV_ms \<Rightarrow>
             let g0 = Num 9.80665;
                 ve = specificImpulse * g0;
                 massRatio = Math_exp (deltaV_ms / ve)
             in if \<not> isFinite massRatio \<or> massRatio < Num 1 then Inl InvalidMassRatio
                else
                  let totalMass = dryMass * massRatio;
                      propellantMass = totalMass - dryMass
                  in if propellantMass < Num 0 then Inl NegativePropellantMass
                     else
                       let burnTime = calculateVariableMassBurnTime
                                        totalMass dryMass thrustToWeightRatio ve g0
                       in if burnTime < Num 0 then Inl NegativeBurnTime
                          else
                            (case (if SECONDS_PER_HOUR < burnTime
                                   then secondsToHours burnTime else Inr burnTime) of
                               Inl e \<Rightarrow> Inl e
                             | Inr _ \<Rightarrow>
                                 Inr \<lparr> fo_massRatio = toFixed 4 massRatio,
                                       fo_propellantMass = toFixed 1 propellantMass,
                                       fo_specificImpulse = specificImpulse,
                                       fo_burnTime = toFixed 1 burnTime \<rparr>)))"

section \<open>Trajectory engine\<close>

record Calculations =
  calc_hohmannTransfer :: "HohmannResult option"
  calc_lambertSolution :: "LambertResult option"
  calc_fuelOptimization :: FuelOptimization

record TrajectoryResult =
  tr_totalDeltaV :: jsnum
  tr_flightTime :: jsnum
  tr_fuelMass :: jsnum
  tr_efficiency :: jsnum
  tr_trajectoryPoints :: "Vector3D list"
  tr_orbitalElements :: "OrbitalElements list"
  tr_riskFactors :: "string list"
  tr_calculations :: Calculations

text \<open>The helper functions. \<^verbatim>\<open>numPoints\<close> is a natural number (the engine passes
  100); a \<^verbatim>\<open>for\<close> loop that pushes one point for each \<open>i\<close> is a \<open>map\<close> over the
  range of \<open>i\<close>.\<close>

definition generatePatchedConicTrajectoryPoints ::
  "jsnum \<Rightarrow> jsnum \<Rightarrow> jsnum \<Rightarrow> nat \<Rightarrow> Vector3D list" where
  "generatePatchedConicTrajectoryPoints r_earth r_moon lunarSOI numPoints =
     (let soiTransition = r_moon - lunarSOI;
          earthPhasePoints = (numPoints * 4) div 5;
          lunarPhasePoints = numPoints - earthPhasePoints;
          a_earth = (r_earth + soiTransition) / Num 2;
          e_earth = \<bar>soiTransition - r_earth\<bar> / (r_earth + soiTransition);
          earthPhase =
            map (\<lambda>i. let theta = (Num pi * Num (real i)) / Num (real earthPhasePoints);
                         r = a_earth * (Num 1 - e_earth * e_earth)
                               / (Num 1 + e_earth * Math_cos theta)
                     in Vector3D (r * Math_cos theta) (r * Math_sin theta) (Num 0))
                [0 ..< Suc earthPhasePoints];
          lunarPhase =
            map (\<lambda>i. let t = Num (real i) / Num (real lunarPhasePoints);
                         r = soiTransition + t * (r_moon - soiTransition);
                         curvature = Math_sin (t * Num pi / Num 2) * lunarSOI * Num 0.1
                     in Vector3D r curvature (Num 0))
                [1 ..< Suc lunarPhasePoints]
      in earthPhase @ lunarPhase)"

definition generateLambertTrajectoryPoints ::
  "Vector3D \<Rightarrow> Vector3D \<Rightarrow> LambertResult \<Rightarrow> nat \<Rightarrow> Vector3D list" where
  "generateLambertTrajectoryPoints r1 r2 solution numPoints =
     map (\<lambda>i. let t = Num (real i) / Num (real numPoints)
              in Vector3D_add (Vector3D_multiply r1 (Num 1 - t)) (Vector3D_multiply r2 t))
         [0 ..< Suc numPoints]"

definition assessTrajectoryRisks :: "string \<Rightarrow> jsnum \<Rightarrow> jsnum \<Rightarrow> string list" where
  "assessTrajectoryRisks type deltaV flightTime =
     (if Num 4 < deltaV
      then [''High delta-V requirement increases fuel load and complexity''] else [])
     @ (if Num 120 < flightTime
        then [''Extended flight time increases exposure to space weather''] else [])
     @ (if type = ''lambert''
        then [''Lambert solution may require precise timing and navigation''] else [])
     @ [''Monitor solar activity during launch window'',
        ''Debris avoidance maneuvers may be required'']"

definition calculateEfficiency :: "jsnum \<Rightarrow> jsnum \<Rightarrow> jsnum \<Rightarrow> jsnum" where
  "calculateEfficiency deltaV r1 r2 =
     (let mu = MU_EARTH;
          v1_circular = Math_sqrt (mu / r1);
          v2_circular = Math_sqrt (mu / r2);
          a_transfer = (r1 + r2) / Num 2;
          v1_transfer = Math_sqrt (mu * (Num 2 / r1 - Num 1 / a_transfer));
          v2_transfer = Math_sqrt (mu * (Num 2 / r2 - Num 1 / a_transfer));
          theoretical_min = \<bar>v1_transfer - v1_circular\<bar> + \<bar>v2_circular - v2_transfer\<bar>
      in Math_max (Num 0) (Math_min (Num 100) ((theoretical_min / deltaV) * Num 100)))"

text \<open>
  A \<^verbatim>\<open>Date\<close> holds a time value, \<open>NaN\<close> for an invalid date; the argument
  \<^verbatim>\<open>launchDate\<close> is \<open>None\<close> when it is \<^verbatim>\<open>null\<close> or \<^verbatim>\<open>undefined\<close>.
\<close>

datatype Date = Date (getTime: jsnum)

text \<open>The mutable local variables of \<^verbatim>\<open>generateEarthMoonTrajectory\<close>, as they stand
  after the \<^verbatim>\<open>if\<close> over the transfer type.\<close>

record transfer_locals =
  l_totalDeltaV :: jsnum
  l_flightTime :: jsnum
  l_hohmannResult :: "HohmannResult option"
  l_lambertResult :: "LambertResult option"
  l_trajectoryPoints :: "Vector3D list"
  l_orbitalElements :: "OrbitalElements list"

definition compute_transfer :: "string \<Rightarrow> jsnum \<Rightarrow> error + transfer_locals" where
  "compute_transfer transferType flightTime =
     (let r_earth = EARTH_RADIUS + EARTH_LOW_ORBIT;
          r_moon = MOON_RADIUS + MOON_ORBIT_ALT;
          initial = \<lparr> l_totalDeltaV = Num 0, l_flightTime = flightTime,
                      l_hohmannResult = None, l_lambertResult = None,
                      l_trajectoryPoints = [], l_orbitalElements = [] \<rparr>
      in if transferType = ''hohmann'' then
           (case calculateEarthMoonTransfer of
              Inl e \<Rightarrow> Inl e
            | Inr patchedConicTransfer \<Rightarrow>
                Inr (initial
                      \<lparr> l_hohmannResult := Some (em_earthEscape patchedConicTransfer),
                        l_totalDeltaV := em_totalDeltaV patchedConicTransfer,
                        l_flightTime := em_totalTime patchedConicTransfer,
                        l_trajectoryPoints :=
                          generatePatchedConicTrajectoryPoints r_earth
                            EARTH_MOON_DISTANCE (em_lunarSOI patchedConicTransfer) 100,
                        l_orbitalElements :=
                          [transferOrbit (em_earthEscape patchedConicTransfer),
                           transferOrbit (em_lunarCapture patchedConicTransfer)] \<rparr>))
         else if transferType = ''lambert'' then
           (let r1 = Vector3D r_earth (Num 0) (Num 0);
                r2 = Vector3D EARTH_MOON_DISTANCE (Num 0) (Num 0)
            in case hoursToSeconds flightTime of
                 Inl e \<Rightarrow> Inl e
               | Inr flightTimeSeconds \<Rightarrow>
                 (case solve r1 r2 flightTimeSeconds MU_EARTH True (Num 0) of
                    Inl e \<Rightarrow> Inl e
                  | Inr lambertResult \<Rightarrow>
                      let v_earth_circular = Math_sqrt (MU_EARTH / r_earth);
                          deltaV_departure =
                            magnitude (velocityDeparture lambertResult) - v_earth_circular;
                          v_moon_circular = Math_sqrt (MU_MOON / r_moon);
                          deltaV_arrival =
                            magnitude (velocityArrival lambertResult) - v_moon_circular
                      in Inr (initial
                               \<lparr> l_lambertResult := Some lambertResult,
                                 l_totalDeltaV := \<bar>deltaV_departure\<bar> + \<bar>deltaV_arrival\<bar>,
                                 l_trajectoryPoints :=
                                   generateLambertTrajectoryPoints r1 r2 lambertResult 100
                               \<rparr>)))
         else Inr initial)"

definition validTypes :: "string list" where
  "validTypes = [''hohmann'', ''lambert'', ''bi_elliptic'']"

definition generateEarthMoonTrajectory ::
  "Date option \<Rightarrow> string \<Rightarrow> jsnum \<Rightarrow> error + TrajectoryResult" where
  "generateEarthMoonTrajectory launchDate transferType flightTime =
     (if (case launchDate of None \<Rightarrow> True | Some d \<Rightarrow> isNaN (getTime d))
      then Inl InvalidLaunchDate
      else
        case validateMissionTime flightTime of
          Inl e \<Rightarrow> Inl e
        | Inr _ \<Rightarrow>
          if transferType \<notin> set validTypes then Inl InvalidTransferType
          else
            (case compute_transfer transferType flightTime of
               Inl e \<Rightarrow> Inl e
             | Inr locals \<Rightarrow>
               (case FuelOptimizer_calculate (l_totalDeltaV locals)
                       SPACECRAFT_DRY_MASS SPECIFIC_IMPULSE (Num 0.3) of
                  Inl e \<Rightarrow> Inl e
                | Inr fuelOptimization \<Rightarrow>
                    let r_earth = EARTH_RADIUS + EARTH_LOW_ORBIT;
                        riskFactors = assessTrajectoryRisks transferType
                                        (l_totalDeltaV locals) (l_flightTime locals);
                        efficiency = calculateEfficiency (l_totalDeltaV locals)
                                       r_earth EARTH_MOON_DISTANCE
                    in Inr \<lparr> tr_totalDeltaV =
                               Math_round (l_totalDeltaV locals * Num 1000) / Num 1000,
                             tr_flightTime =
                               Math_round (l_flightTime locals * Num 10) / Num 10,
                             tr_fuelMass =
                               Math_round (fo_propellantMass fuelOptimization),
                             tr_efficiency = Math_round (efficiency * Num 10) / Num 10,
                             tr_trajectoryPoints = l_trajectoryPoints locals,
                             tr_orbitalElements = l_orbitalElements locals,
                             tr_riskFactors = riskFactors,
                             tr_calculations =
                               \<lparr> calc_hohmannTransfer = l_hohmannResult locals,
                                 calc_lambertSolution = l_lambertResult locals,
                                 calc_fuelOptimization = fuelOptimization \<rparr> \<rparr>)))"

section \<open>Quantities the claims are stated with\<close>

text \<open>
  The specification's formulas for the Lambert solver, in its own words: the
  semiperimeter \<open>s = (|r1| + |r2| + c) / 2\<close> with the chord \<open>c = |r2 - r1|\<close>, the
  normalised time \<open>T_norm = \<surd>(2\<mu>/s\<^sup>3) T\<close>, the shape parameter
  \<open>\<lambda> = \<surd>(|r1| |r2|) cos(\<Delta>\<nu>/2) / s\<close> and the minimum-energy time
  \<open>T_min = (1 - \<lambda>\<^sup>3) / 3\<close>. They are compared with what \<^verbatim>\<open>solve\<close> computes.
\<close>

definition semiperimeter :: "Vector3D \<Rightarrow> Vector3D \<Rightarrow> jsnum" where
  "semiperimeter r1 r2 =
     (magnitude r1 + magnitude r2 + magnitude (Vector3D_subtract r2 r1)) / Num 2"

definition spec_T_norm :: "Vector3D \<Rightarrow> Vector3D \<Rightarrow> jsnum \<Rightarrow> jsnum \<Rightarrow> jsnum" where
  "spec_T_norm r1 r2 T mu =
     Math_sqrt (Num 2 * mu / Math_pow (semiperimeter r1 r2) (Num 3)) * T"

definition spec_lambda :: "Vector3D \<Rightarrow> Vector3D \<Rightarrow> bool \<Rightarrow> jsnum" where
  "spec_lambda r1 r2 prograde =
     Math_sqrt (magnitude r1 * magnitude r2)
       * Math_cos (transfer_angle r1 r2 prograde / Num 2) / semiperimeter r1 r2"

definition spec_T_min :: "jsnum \<Rightarrow> jsnum" where
  "spec_T_min lambda = (Num 1 - Math_pow lambda (Num 3)) / Num 3"

text \<open>
  The real numbers behind the patched-conic transfer: the Hill-sphere factor
  \<open>(\<mu>_Moon / \<mu>_Earth)\<^sup>2\<^sup>/\<^sup>5\<close>, and the total delta-V that
  \<^verbatim>\<open>calculateEarthMoonTransfer\<close> adds up, as a function of the radius \<open>S\<close> of the
  lunar sphere of influence (the speed at the periapsis of the capture orbit is added
  and subtracted once, and is left out), with the speed at the entry into the sphere of
  influence and the first lunar burn, \<open>deltaV1\<close> of \<open>lunarCapture\<close>.
\<close>

definition soi_factor :: real where
  "soi_factor = (4902.7779 / 398600.4418) powr (2 / 5)"

definition v_soi_entry_real :: "real \<Rightarrow> real" where
  "v_soi_entry_real S =
     (let rb = 384400 - S;
          v_at_soi = sqrt (2 * 398600.4418 / rb);
          v_moon = sqrt (398600.4418 / 384400);
          v_infinity = \<bar>v_at_soi - v_moon\<bar>
      in sqrt (v_infinity * v_infinity + 2 * 4902.7779 / S))"

definition deltaV_real :: "real \<Rightarrow> real" where
  "deltaV_real S =
     (let rb = 384400 - S;
          v_earth_circular = sqrt (398600.4418 / 6571);
          v_departure = sqrt (2 * (- 398600.4418 / (2 * rb) + 398600.4418 / 6571));
          v_lunar_circular = sqrt (4902.7779 / 1837)
      in v_departure - v_earth_circular + (v_soi_entry_real S - v_lunar_circular))"

definition capture_deltaV_real :: "real \<Rightarrow> real" where
  "capture_deltaV_real S =
     (let v_periapsis_capture = sqrt (4902.7779 * (2 / 1837 - 2 / (S + 1837)))
      in v_soi_entry_real S - v_periapsis_capture)"

section \<open>Arithmetic of the special values\<close>

lemma minus_Num [simp]: "Num a - Num b = Num (a - b)"
  by (simp add: minus_jsnum_def)

lemma NaN_minus [simp]: "NaN - v = NaN"
  by (simp add: minus_jsnum_def)

lemma minus_NaN [simp]: "u - NaN = NaN"
  by (cases u) (simp_all add: minus_jsnum_def)

lemma plus_NaN [simp]: "u + NaN = NaN"
  by (cases u) simp_all

lemma times_NaN [simp]: "u * NaN = NaN"
  by (cases u) simp_all

lemma divide_NaN [simp]: "u / NaN = NaN"
  by (cases u) simp_all

lemma less_NaN [simp]: "\<not> u < NaN"
  by (cases u) simp_all

lemma less_eq_NaN [simp]: "\<not> u \<le> NaN"
  by (cases u) simp_all

lemma Math_max_Num [simp]: "Math_max (Num a) (Num b) = Num (max a b)"
  by (simp add: Math_max_def max_def)

lemma Math_min_Num [simp]: "Math_min (Num a) (Num b) = Num (min a b)"
  by (simp add: Math_min_def min_def)

lemma magnitude_Num:
  "magnitude (Vector3D (Num a) (Num b) (Num c)) = Num (sqrt (a * a + b * b + c * c))"
  by (simp add: magnitude_def not_less)

section \<open>Mission-time guard\<close>

text \<open>
  C6. \<^verbatim>\<open>UnitConverter.validateMissionTime(hours)\<close> fails exactly when
  \<open>hours < 0.1\<close> or \<open>hours > 8760\<close>: it fails at 0.05 and at 8761, and succeeds at
  0.1 and at 8760.
\<close>

theorem validateMissionTime_fails_iff:
  "fails (validateMissionTime (Num h)) = (h < 1 / 10 \<or> 8760 < h)
   \<and> fails (validateMissionTime (Num (5 / 100)))
   \<and> \<not> fails (validateMissionTime (Num (1 / 10)))
   \<and> \<not> fails (validateMissionTime (Num 8760))
   \<and> fails (validateMissionTime (Num 8761))"
  by (simp add: validateMissionTime_def fails_def)

theorem validateMissionTime_fails_iff_witness:
  "fails (validateMissionTime (Num 9000)) = ((9000::real) < 1 / 10 \<or> (8760::real) < 9000)"
  using validateMissionTime_fails_iff [of 9000] by simp

section \<open>Normalising the zero vector\<close>


section \<open>The rocket equation at zero delta-V\<close>

lemma FuelOptimizer_calculate_zero:
  assumes "0 < dryMass" "0 < specificImpulse" "0 < twr" "twr \<le> 2"
  shows "FuelOptimizer_calculate (Num 0) (Num dryMass) (Num specificImpulse) (Num twr)
         = Inr \<lparr> fo_massRatio = Num 1, fo_propellantMass = Num 0,
                 fo_specificImpulse = Num specificImpulse, fo_burnTime = Num 0 \<rparr>"
  using assms
  by (simp add: FuelOptimizer_calculate_def validateDeltaV_def kmPerSecToMPerSec_def
        MS_PER_KMS_def calculateVariableMassBurnTime_def calculateGravityLossFactor_def
        SECONDS_PER_HOUR_def Let_def)

text \<open>
  C7. For every \<open>dryMass > 0\<close>, \<open>specificImpulse > 0\<close> and thrust-to-weight ratio in
  \<open>(0, 2]\<close>, \<^verbatim>\<open>FuelOptimizer.calculate(0, dryMass, specificImpulse, twr)\<close> succeeds
  with \<open>massRatio = 1\<close> and \<open>propellantMass = 0\<close>.
\<close>

theorem FuelOptimizer_zero_deltaV:
  assumes "0 < dryMass" and "0 < specificImpulse" and "0 < twr" and "twr \<le> 2"
  shows "\<exists>r. FuelOptimizer_calculate (Num 0) (Num dryMass) (Num specificImpulse) (Num twr)
               = Inr r
             \<and> fo_massRatio r = Num 1 \<and> fo_propellantMass r = Num 0"
  using FuelOptimizer_calculate_zero [OF assms] by simp

theorem FuelOptimizer_zero_deltaV_witness:
  "(0::real) < 5000 \<and> (0::real) < 450 \<and> (0::real) < 3 / 10 \<and> (3 / 10 :: real) \<le> 2
   \<and> (\<exists>r. FuelOptimizer_calculate (Num 0) (Num 5000) (Num 450) (Num (3 / 10)) = Inr r
           \<and> fo_massRatio r = Num 1 \<and> fo_propellantMass r = Num 0)"
  using FuelOptimizer_zero_deltaV [of 5000 450 "3 / 10"] by simp

section \<open>Range guard of the lunar orbit insertion\<close>

lemma secondsToHours_error:
  "secondsToHours u = Inl e \<Longrightarrow> e = TimeNegative \<or> e = TimeNotFinite"
  by (auto simp: secondsToHours_def split: if_splits)

lemma calculateHighEnergyCapture_error:
  "calculateHighEnergyCapture v r rp = Inl e \<Longrightarrow> e = TimeNegative \<or> e = TimeNotFinite"
  by (auto simp: calculateHighEnergyCapture_def Let_def split: sum.splits
           dest: secondsToHours_error)

lemma calculateCaptureOrbitInsertion_error:
  "calculateCaptureOrbitInsertion v r rp = Inl e \<Longrightarrow> e = TimeNegative \<or> e = TimeNotFinite"
  by (auto simp: calculateCaptureOrbitInsertion_def Let_def split: sum.splits if_splits
           dest: secondsToHours_error calculateHighEnergyCapture_error)

text \<open>
  C2, as amended. For all finite \<open>v_infinity\<close> and \<open>r_target\<close> and any optional
  \<open>r_periapsis\<close>, \<^verbatim>\<open>calculateOptimalLOI\<close> fails with \<open>OutOfRange\<close> exactly when
  \<open>v_infinity\<close> is not in \<open>(0, 5]\<close> or \<open>r_target\<close> is not in the half-open interval
  \<open>(R_moon, 10 R_moon]\<close>, \<open>R_moon = 1737\<close>: the lower end is excluded.
\<close>

theorem calculateOptimalLOI_OutOfRange_iff:
  "(calculateOptimalLOI (Num v) (Num r) rp = Inl OutOfRange)
   = (\<not> (0 < v \<and> v \<le> 5) \<or> \<not> (1737 < r \<and> r \<le> 17370))"
proof (cases "(0 < v \<and> v \<le> 5) \<and> (1737 < r \<and> r \<le> 17370)")
  case False
  then show ?thesis
    by (auto simp: calculateOptimalLOI_def MOON_RADIUS_def)
next
  case True
  have "calculateOptimalLOI (Num v) (Num r) rp \<noteq> Inl OutOfRange"
    using True
    by (auto simp: calculateOptimalLOI_def MOON_RADIUS_def Let_def
             split: sum.splits option.splits if_splits
             dest!: calculateCaptureOrbitInsertion_error)
  with True show ?thesis by simp
qed

text \<open>The scenario of the specification: \<open>v_infinity = 6.0\<close>, \<open>r_target = 2000\<close>.\<close>

theorem calculateOptimalLOI_OutOfRange_witness:
  "calculateOptimalLOI (Num 6) (Num 2000) None = Inl OutOfRange"
  using calculateOptimalLOI_OutOfRange_iff [of 6 2000 None] by simp

text \<open>The claim as it was stated has the closed interval \<open>[R_moon, 10 R_moon]\<close>; the
  guard is \<^verbatim>\<open>r_target <= CONSTANTS.MOON_RADIUS\<close>, and \<open>r_target = R_moon\<close> with
  \<open>v_infinity = 1\<close> is rejected.\<close>

theorem calculateOptimalLOI_moon_radius_counterexample:
  "calculateOptimalLOI (Num 1) (Num 1737) None = Inl OutOfRange"
  by (simp add: calculateOptimalLOI_def MOON_RADIUS_def)

section \<open>Degenerate Lambert geometry\<close>

lemma pos_not_le_zero: "Num 0 < u \<Longrightarrow> \<not> u \<le> Num 0"
  by (cases u) simp_all

text \<open>
  C8, as amended. Whenever both position magnitudes pass the first guard (neither is
  below \<open>10\<^sup>-\<^sup>6\<close> km) and the chord \<open>|r2 - r1|\<close> is below \<open>10\<^sup>-\<^sup>6\<close> km,
  \<^verbatim>\<open>LambertSolver.solve\<close> fails with \<open>DegenerateGeometry\<close>, for any positive time of
  flight and gravitational parameter, either direction and any revolution count.
\<close>

theorem solve_DegenerateGeometry:
  assumes "\<not> magnitude r1 < Num (1 / 10 ^ 6)" and "\<not> magnitude r2 < Num (1 / 10 ^ 6)"
    and "magnitude (Vector3D_subtract r2 r1) < Num (1 / 10 ^ 6)"
    and "Num 0 < timeOfFlight" and "Num 0 < mu"
  shows "solve r1 r2 timeOfFlight mu prograde multiRevs = Inl DegenerateGeometry"
  using assms by (simp add: solve_def Let_def pos_not_le_zero)

lemma sqrt_7000: "sqrt 49000000 = 7000"
  by (rule real_sqrt_unique) simp_all

text \<open>The scenario of the specification: \<open>r1 = r2 = (7000, 0, 0)\<close>, \<open>T = 3600\<close> s.\<close>

theorem solve_DegenerateGeometry_witness:
  "solve (Vector3D (Num 7000) (Num 0) (Num 0)) (Vector3D (Num 7000) (Num 0) (Num 0))
         (Num 3600) (Num 398600.4418) True (Num 0) = Inl DegenerateGeometry"
proof -
  have m: "magnitude (Vector3D (Num 7000) (Num 0) (Num 0)) = Num 7000"
    by (simp add: magnitude_Num sqrt_7000)
  have c: "magnitude (Vector3D_subtract (Vector3D (Num 7000) (Num 0) (Num 0))
             (Vector3D (Num 7000) (Num 0) (Num 0))) = Num 0"
    by (simp add: Vector3D_subtract_def magnitude_Num)
  show ?thesis
    by (rule solve_DegenerateGeometry) (simp_all add: m c)
qed

text \<open>The claim as it was stated asks nothing of the two magnitudes. At
  \<open>r1 = r2 = (0, 0, 0)\<close> the chord is \<open>0\<close>, and the guard on the magnitudes, which
  comes first, throws its own error.\<close>

theorem solve_zero_vectors_counterexample:
  "magnitude (Vector3D_subtract (Vector3D (Num 0) (Num 0) (Num 0))
                                (Vector3D (Num 0) (Num 0) (Num 0))) < Num (1 / 10 ^ 6)
   \<and> solve (Vector3D (Num 0) (Num 0) (Num 0)) (Vector3D (Num 0) (Num 0) (Num 0))
         (Num 3600) (Num 398600.4418) True (Num 0) = Inl InvalidPositionVectors"
  by (simp add: solve_def Vector3D_subtract_def magnitude_Num)

section \<open>The transfer type bi_elliptic\<close>

lemma compute_transfer_bi_elliptic:
  "compute_transfer ''bi_elliptic'' ft =
     Inr \<lparr> l_totalDeltaV = Num 0, l_flightTime = ft,
           l_hohmannResult = None, l_lambertResult = None,
           l_trajectoryPoints = [], l_orbitalElements = [] \<rparr>"
  by (simp add: compute_transfer_def Let_def)

text \<open>
  C10. \<^verbatim>\<open>generateEarthMoonTrajectory\<close> accepts the transfer type \<open>bi_elliptic\<close> and
  no branch computes anything for it: for every valid launch date and every flight time
  in \<open>[0.1, 8760]\<close> hours the call succeeds, with \<open>totalDeltaV = 0\<close>, no trajectory
  points, no orbital elements, \<open>fuelMass = 0\<close>, and neither a Hohmann nor a Lambert
  record among the calculations.
\<close>

theorem bi_elliptic_empty_result:
  assumes "\<not> isNaN (getTime d)" and "1 / 10 \<le> ft" and "ft \<le> 8760"
  shows "\<exists>r. generateEarthMoonTrajectory (Some d) ''bi_elliptic'' (Num ft) = Inr r
           \<and> tr_totalDeltaV r = Num 0
           \<and> tr_trajectoryPoints r = []
           \<and> tr_orbitalElements r = []
           \<and> tr_fuelMass r = Num 0
           \<and> calc_hohmannTransfer (tr_calculations r) = None
           \<and> calc_lambertSolution (tr_calculations r) = None"
proof -
  have fuel: "FuelOptimizer_calculate (Num 0) SPACECRAFT_DRY_MASS SPECIFIC_IMPULSE (Num 0.3)
      = Inr \<lparr> fo_massRatio = Num 1, fo_propellantMass = Num 0,
              fo_specificImpulse = Num 450, fo_burnTime = Num 0 \<rparr>"
    unfolding SPACECRAFT_DRY_MASS_def SPECIFIC_IMPULSE_def
    by (rule FuelOptimizer_calculate_zero) simp_all
  show ?thesis
    using assms
    by (simp add: generateEarthMoonTrajectory_def validateMissionTime_def validTypes_def
          compute_transfer_bi_elliptic fuel Let_def)
qed

theorem bi_elliptic_empty_result_witness:
  "\<exists>r. generateEarthMoonTrajectory (Some (Date (Num 0))) ''bi_elliptic'' (Num 72) = Inr r
           \<and> tr_totalDeltaV r = Num 0
           \<and> tr_trajectoryPoints r = []
           \<and> tr_orbitalElements r = []
           \<and> tr_fuelMass r = Num 0
           \<and> calc_hohmannTransfer (tr_calculations r) = None
           \<and> calc_lambertSolution (tr_calculations r) = None"
  using bi_elliptic_empty_result [of "Date (Num 0)" 72] by simp

section \<open>The Householder loop\<close>

lemma householder_step_Converged:
  "householder_step lambda T tolerance x = Converged
   \<Longrightarrow> \<bar>calculateTime x (calculateY x lambda) - T\<bar> < tolerance"
  by (auto simp: householder_step_def Let_def split: if_splits)

lemma householder_step_Abort:
  "householder_step lambda T tolerance x = Abort e \<Longrightarrow> e = DerivativeTooSmall"
  by (auto simp: householder_step_def Let_def split: if_splits)

lemma solveForX_loop_unfold:
  "solveForX_loop lambda T tolerance maxIterations iterations x =
     (if iterations < maxIterations then
        (case householder_step lambda T tolerance x of
           Converged \<Rightarrow> (iterations, Inr x)
         | Abort e \<Rightarrow> (iterations, Inl e)
         | Next x1 \<Rightarrow> solveForX_loop lambda T tolerance maxIterations (Suc iterations) x1)
      else (iterations, Inl ConvergenceFailure))"
  by (rule solveForX_loop.simps)

lemma solveForX_loop_outcome:
  "iterations \<le> maxIterations \<Longrightarrow>
   fst (solveForX_loop lambda T tolerance maxIterations iterations x) \<le> maxIterations
   \<and> (case snd (solveForX_loop lambda T tolerance maxIterations iterations x) of
        Inr xr \<Rightarrow> \<bar>calculateTime xr (calculateY xr lambda) - T\<bar> < tolerance
      | Inl e \<Rightarrow>
          (e = ConvergenceFailure
             \<and> fst (solveForX_loop lambda T tolerance maxIterations iterations x)
                 = maxIterations)
          \<or> e = DerivativeTooSmall)"
proof (induction lambda T tolerance maxIterations iterations x rule: solveForX_loop.induct)
  case (1 lambda T tolerance maxIterations iterations x)
  show ?case
  proof (cases "iterations < maxIterations")
    case True
    show ?thesis
    proof (cases "householder_step lambda T tolerance x")
      case Converged
      have "solveForX_loop lambda T tolerance maxIterations iterations x = (iterations, Inr x)"
        by (subst solveForX_loop_unfold) (simp add: True Converged)
      then show ?thesis
        using True householder_step_Converged [OF Converged] by simp
    next
      case (Abort e)
      have "solveForX_loop lambda T tolerance maxIterations iterations x = (iterations, Inl e)"
        by (subst solveForX_loop_unfold) (simp add: True Abort)
      then show ?thesis
        using True householder_step_Abort [OF Abort] by simp
    next
      case (Next x1)
      have eq: "solveForX_loop lambda T tolerance maxIterations iterations x
            = solveForX_loop lambda T tolerance maxIterations (Suc iterations) x1"
        by (subst solveForX_loop_unfold) (simp add: True Next)
      have "Suc iterations \<le> maxIterations"
        using True by simp
      from "1.IH" [OF True Next this] show ?thesis
        unfolding eq .
    qed
  next
    case False
    have "solveForX_loop lambda T tolerance maxIterations iterations x
          = (iterations, Inl ConvergenceFailure)"
      by (subst solveForX_loop_unfold) (simp add: False)
    then show ?thesis
      using False "1.prems" by simp
  qed
qed

lemma solveForX_error:
  "solveForX lambda T tolerance maxIterations = Inl e
   \<Longrightarrow> e = ConvergenceFailure \<or> e = DerivativeTooSmall"
  using solveForX_loop_outcome [of 0 maxIterations lambda T tolerance "initial_guess lambda T"]
  by (auto simp: solveForX_def)

section \<open>The minimum-energy time guard\<close>

lemma odd_integer_3: "odd_integer 3"
  by (simp add: odd_integer_def)

lemma pow_finite_3: "a \<noteq> 0 \<Longrightarrow> pow_finite a 3 = Num (a * a * a)"
proof -
  assume "a \<noteq> 0"
  then consider "0 < a" | "a < 0" by linarith
  then show ?thesis
  proof cases
    case 1
    then show ?thesis by (simp add: pow_finite_def power3_eq_cube)
  next
    case 2
    then show ?thesis
      by (simp add: pow_finite_def odd_integer_3 power3_eq_cube)
  qed
qed

lemma Math_pow_3_Num: "Math_pow (Num a) (Num 3) = Num (a * a * a)"
  by (simp add: pow_finite_3)

lemma cube_eq_Math_pow: "u * u * u = Math_pow u (Num 3)"
  by (cases u) (simp_all add: pow_finite_3 odd_integer_3)

lemma abs_less_one_Num: "\<bar>u\<bar> < Num 1 \<Longrightarrow> \<exists>a. u = Num a \<and> \<bar>a\<bar> < 1"
  by (cases u) simp_all

lemma computeMinimumEnergyTime_spec:
  "\<bar>lambda\<bar> < Num 1 \<Longrightarrow> computeMinimumEnergyTime lambda = spec_T_min lambda"
  by (auto simp: computeMinimumEnergyTime_def spec_T_min_def pow_finite_3
           dest!: abs_less_one_Num)

lemma calculateLagrangeCoefficients_error:
  "calculateLagrangeCoefficients x lambda r1_mag r2_mag s T timeOfFlight mu = Inl e
   \<Longrightarrow> e = InvalidSemiMajorAxis"
  by (auto simp: calculateLagrangeCoefficients_def Let_def split: if_splits)


text \<open>
  C3. For every input of \<^verbatim>\<open>LambertSolver.solve\<close> that passes the earlier guards
  (neither position magnitude below \<open>10\<^sup>-\<^sup>6\<close> km, time of flight and \<open>\<mu>\<close> positive,
  chord not below \<open>10\<^sup>-\<^sup>6\<close> km, \<open>|\<lambda>| < 1\<close>, revolution count 0), the call fails with
  \<open>TimeTooShort\<close> exactly when \<open>T_norm < T_min\<close>, with the specification's
  \<open>T_norm = \<surd>(2\<mu>/s\<^sup>3) T\<close>, \<open>\<lambda> = \<surd>(|r1| |r2|) cos(\<Delta>\<nu>/2) / s\<close> and
  \<open>T_min = (1 - \<lambda>\<^sup>3) / 3\<close>.
\<close>

theorem solve_TimeTooShort_iff:
  assumes "\<not> magnitude r1 < Num (1 / 10 ^ 6)" and "\<not> magnitude r2 < Num (1 / 10 ^ 6)"
    and "Num 0 < timeOfFlight" and "Num 0 < mu"
    and "\<not> magnitude (Vector3D_subtract r2 r1) < Num (1 / 10 ^ 6)"
    and "\<bar>spec_lambda r1 r2 prograde\<bar> < Num 1"
  shows "(solve r1 r2 timeOfFlight mu prograde (Num 0) = Inl TimeTooShort)
       = (spec_T_norm r1 r2 timeOfFlight mu < spec_T_min (spec_lambda r1 r2 prograde))"
proof -
  have T: "Math_sqrt (Num 2 * mu / (semiperimeter r1 r2 * semiperimeter r1 r2
                                      * semiperimeter r1 r2)) * timeOfFlight
           = spec_T_norm r1 r2 timeOfFlight mu"
    by (simp add: spec_T_norm_def cube_eq_Math_pow)
  have lam: "\<not> Num 1 \<le> \<bar>spec_lambda r1 r2 prograde\<bar>"
    using assms(6) abs_less_one_Num [of "spec_lambda r1 r2 prograde"] by auto
  have Tmin: "computeMinimumEnergyTime (spec_lambda r1 r2 prograde)
              = spec_T_min (spec_lambda r1 r2 prograde)"
    using assms(6) by (rule computeMinimumEnergyTime_spec)
  have tof: "\<not> timeOfFlight \<le> Num 0" and mu: "\<not> mu \<le> Num 0"
    using assms(3,4) by (simp_all add: pos_not_le_zero)
  show ?thesis
    unfolding solve_def Let_def semiperimeter_def [symmetric] spec_lambda_def [symmetric] T
    using assms(1,2,5) lam tof mu Tmin
    by (auto split: sum.splits if_splits
             dest!: solveForX_error calculateLagrangeCoefficients_error)
qed

text \<open>Two opposite positions at distance 1, \<open>\<mu> = 4\<close> and a time of flight of
  \<open>0.1\<close>: \<open>\<lambda> = 0\<close>, \<open>T_norm = 0.1\<close>, \<open>T_min = 1/3\<close>.\<close>

lemma antipodal_geometry:
  "magnitude (Vector3D (Num 1) (Num 0) (Num 0)) = Num 1"
  "magnitude (Vector3D (Num (- 1)) (Num 0) (Num 0)) = Num 1"
  "magnitude (Vector3D_subtract (Vector3D (Num (- 1)) (Num 0) (Num 0))
                                (Vector3D (Num 1) (Num 0) (Num 0))) = Num 2"
  "semiperimeter (Vector3D (Num 1) (Num 0) (Num 0)) (Vector3D (Num (- 1)) (Num 0) (Num 0))
     = Num 2"
  "transfer_angle (Vector3D (Num 1) (Num 0) (Num 0)) (Vector3D (Num (- 1)) (Num 0) (Num 0))
     True = Num pi"
  by (simp_all add: magnitude_Num Vector3D_subtract_def semiperimeter_def transfer_angle_def
        Vector3D_dot_def Vector3D_cross_def atan2_def Let_def)

theorem solve_TimeTooShort_witness:
  "solve (Vector3D (Num 1) (Num 0) (Num 0)) (Vector3D (Num (- 1)) (Num 0) (Num 0))
         (Num (1 / 10)) (Num 4) True (Num 0) = Inl TimeTooShort"
proof -
  let ?r1 = "Vector3D (Num 1) (Num 0) (Num 0)"
  let ?r2 = "Vector3D (Num (- 1)) (Num 0) (Num 0)"
  have lam: "spec_lambda ?r1 ?r2 True = Num 0"
    by (simp add: spec_lambda_def antipodal_geometry)
  have T: "spec_T_norm ?r1 ?r2 (Num (1 / 10)) (Num 4) = Num (1 / 10)"
    by (simp add: spec_T_norm_def antipodal_geometry pow_finite_3)
  have short: "spec_T_norm ?r1 ?r2 (Num (1 / 10)) (Num 4) < spec_T_min (spec_lambda ?r1 ?r2 True)"
    by (simp add: lam T spec_T_min_def)
  have "(solve ?r1 ?r2 (Num (1 / 10)) (Num 4) True (Num 0) = Inl TimeTooShort)
       = (spec_T_norm ?r1 ?r2 (Num (1 / 10)) (Num 4) < spec_T_min (spec_lambda ?r1 ?r2 True))"
    by (rule solve_TimeTooShort_iff) (simp_all add: antipodal_geometry lam)
  with short show ?thesis by simp
qed


section \<open>The Householder loop at \<open>\<lambda> = 0\<close>, \<open>T_norm = 9\<close>\<close>

lemma cube_root_27: "(27::real) powr (1 / 3) = 3"
proof -
  have "((3::real) powr 3) powr (1 / 3) = 3 powr (3 * (1 / 3))"
    by (rule powr_powr)
  then show ?thesis by simp
qed

lemma initial_guess_0_9: "initial_guess (Num 0) (Num 9) = Num 2"
  by (simp add: initial_guess_def pow_finite_def cube_root_27)

text \<open>Once the computed time is \<open>NaN\<close>, so are the residual, the denominator, the
  displacement and the next \<open>x\<close>: no comparison with \<open>NaN\<close> holds, and
  \<^verbatim>\<open>Math.min\<close> and \<^verbatim>\<open>Math.max\<close> pass it on.\<close>

lemma householder_step_NaN_time:
  assumes "calculateTime x (calculateY x lambda) = NaN"
  shows "householder_step lambda T tolerance x = Next NaN"
proof -
  have "limited_delta NaN = NaN"
    by (simp add: limited_delta_def Let_def)
  then show ?thesis
    using assms
    by (simp add: householder_step_def Let_def Math_min_def Math_max_def)
qed

text \<open>The second elliptical branch of \<^verbatim>\<open>calculateTime\<close> is taken when
  \<open>\<surd>x y > 1\<close> and calls \<^verbatim>\<open>Math.asin\<close> on that value: it returns \<open>NaN\<close> on every
  input that reaches it.\<close>

lemma calculateTime_alternative_branch:
  assumes "0 < x" and "1 < sqrt x * y"
  shows "calculateTime (Num x) (Num y) = NaN"
  using assms by (simp add: calculateTime_def Let_def)

lemma calculateTime_NaN: "calculateTime NaN (calculateY NaN lambda) = NaN"
  by (simp add: calculateTime_def calculateY_def)

lemma householder_step_NaN: "householder_step lambda T tolerance NaN = Next NaN"
  using calculateTime_NaN by (rule householder_step_NaN_time)

lemma solveForX_loop_NaN:
  "x = NaN \<Longrightarrow> iterations \<le> maxIterations
   \<Longrightarrow> solveForX_loop lambda T tolerance maxIterations iterations x
       = (maxIterations, Inl ConvergenceFailure)"
proof (induction lambda T tolerance maxIterations iterations x rule: solveForX_loop.induct)
  case (1 lambda T tolerance maxIterations iterations x)
  show ?case
  proof (cases "iterations < maxIterations")
    case True
    have step: "householder_step lambda T tolerance x = Next NaN"
      using "1.prems"(1) by (simp add: householder_step_NaN)
    have "solveForX_loop lambda T tolerance maxIterations iterations x
          = solveForX_loop lambda T tolerance maxIterations (Suc iterations) NaN"
      by (subst solveForX_loop_unfold) (simp add: True step)
    also have "\<dots> = (maxIterations, Inl ConvergenceFailure)"
      using True by (intro "1.IH" [OF True step]) simp_all
    finally show ?thesis .
  next
    case False
    then have "iterations = maxIterations"
      using "1.prems"(2) by simp
    then show ?thesis
      by (subst solveForX_loop_unfold) simp
  qed
qed

lemma householder_step_0_9_2:
  "householder_step (Num 0) (Num 9) tolerance (Num 2) = Next NaN"
proof -
  have "calculateTime (Num 2) (calculateY (Num 2) (Num 0)) = NaN"
    by (simp add: calculateY_def calculateTime_alternative_branch)
  then show ?thesis by (rule householder_step_NaN_time)
qed

lemma solveForX_loop_0_9:
  "solveForX_loop (Num 0) (Num 9) tolerance 30 0 (Num 2) = (30, Inl ConvergenceFailure)"
proof -
  have "solveForX_loop (Num 0) (Num 9) tolerance 30 0 (Num 2)
        = solveForX_loop (Num 0) (Num 9) tolerance 30 (Suc 0) NaN"
    by (subst solveForX_loop_unfold) (simp add: householder_step_0_9_2)
  also have "\<dots> = (30, Inl ConvergenceFailure)"
    by (rule solveForX_loop_NaN) simp_all
  finally show ?thesis .
qed

lemma solveForX_0_9: "solveForX (Num 0) (Num 9) tolerance 30 = Inl ConvergenceFailure"
  by (simp add: solveForX_def initial_guess_0_9 solveForX_loop_0_9)

lemma solve_antipodal:
  "solve (Vector3D (Num 1) (Num 0) (Num 0)) (Vector3D (Num (- 1)) (Num 0) (Num 0))
         (Num 9) (Num 4) True (Num 0) = Inl ConvergenceFailure"
proof -
  let ?r1 = "Vector3D (Num 1) (Num 0) (Num 0)"
  let ?r2 = "Vector3D (Num (- 1)) (Num 0) (Num 0)"
  have lam: "spec_lambda ?r1 ?r2 True = Num 0"
    by (simp add: spec_lambda_def antipodal_geometry)
  show ?thesis
    unfolding solve_def Let_def semiperimeter_def [symmetric] spec_lambda_def [symmetric]
    by (simp add: antipodal_geometry lam computeMinimumEnergyTime_def solveForX_0_9)
qed

text \<open>
  C4. The inputs \<open>\<lambda> = 0\<close>, \<open>T_norm = 9\<close> satisfy the single-revolution
  preconditions (\<open>|\<lambda>| < 1\<close>, \<open>T_norm \<ge> T_min = 1/3\<close>). The initial guess is
  \<open>x = 2\<close>; there \<^verbatim>\<open>calculateTime\<close> is \<open>NaN\<close>, and the first step of the loop of
  \<^verbatim>\<open>solveForX\<close> sets \<open>x\<close> to \<open>NaN\<close>, which is not in \<open>[-1, 50]\<close>. Every later
  step leaves \<open>x\<close> at \<open>NaN\<close>; the loop runs all 30 passes and fails with
  \<open>ConvergenceFailure\<close>. \<^verbatim>\<open>LambertSolver.solve\<close> reaches these inputs from two
  opposite positions at distance 1 with \<open>\<mu> = 4\<close> and a time of flight of 9.
\<close>

theorem solveForX_NaN_evaluation:
  "\<bar>Num 0\<bar> < Num 1
   \<and> \<not> Num 9 < computeMinimumEnergyTime (Num 0)
   \<and> initial_guess (Num 0) (Num 9) = Num 2
   \<and> householder_step (Num 0) (Num 9) (Num (1 / 10 ^ 14)) (Num 2) = Next NaN
   \<and> householder_step (Num 0) (Num 9) (Num (1 / 10 ^ 14)) NaN = Next NaN
   \<and> \<not> (Num (- 1) \<le> NaN \<and> NaN \<le> Num 50)
   \<and> solveForX_loop (Num 0) (Num 9) (Num (1 / 10 ^ 14)) 30 0 (Num 2)
       = (30, Inl ConvergenceFailure)
   \<and> solve (Vector3D (Num 1) (Num 0) (Num 0)) (Vector3D (Num (- 1)) (Num 0) (Num 0))
            (Num 9) (Num 4) True (Num 0) = Inl ConvergenceFailure"
  using householder_step_0_9_2 [of "Num (1 / 10 ^ 14)"]
        householder_step_NaN [of "Num 0" "Num 9" "Num (1 / 10 ^ 14)"]
        solveForX_loop_0_9 [of "Num (1 / 10 ^ 14)"] solve_antipodal
  by (simp add: initial_guess_0_9 computeMinimumEnergyTime_def)

section \<open>The Earth-Moon transfer with the repository's constants\<close>

lemma root5_lower: 
  fixes a x :: real
  assumes "0 < a" "a ^ 5 < x\<^sup>2" "0 < x"
  shows "a < x powr (2 / 5)"
proof -
  have "(a powr 5) powr (1 / 5) = a powr (5 * (1 / 5))"
    by (rule powr_powr)
  then have "a = (a ^ 5) powr (1 / 5)"
    using assms(1) by simp
  also have "(a ^ 5) powr (1 / 5) < (x\<^sup>2) powr (1 / 5)"
    using assms by (intro powr_less_mono2) simp_all
  also have "(x\<^sup>2) powr (1 / 5) = (x powr 2) powr (1 / 5)"
    using assms(3) by simp
  also have "\<dots> = x powr (2 / 5)"
    by (simp add: powr_powr)
  finally show ?thesis .
qed

lemma root5_upper: 
  fixes b x :: real
  assumes "0 < b" "x\<^sup>2 < b ^ 5" "0 < x"
  shows "x powr (2 / 5) < b"
proof -
  have "x powr (2 / 5) = (x powr 2) powr (1 / 5)"
    by (simp add: powr_powr)
  also have "x powr 2 = x\<^sup>2"
    using assms(3) by simp
  also have "(x\<^sup>2) powr (1 / 5) < (b ^ 5) powr (1 / 5)"
    using assms by (intro powr_less_mono2) simp_all
  also have "(b ^ 5) powr (1 / 5) = b"
  proof -
    have "(b powr 5) powr (1 / 5) = b powr (5 * (1 / 5))"
      by (rule powr_powr)
    then show ?thesis using assms(1) by simp
  qed
  finally show ?thesis .
qed

lemma soi_factor_bounds: "0.17217 < soi_factor \<and> soi_factor < 0.17218"
proof
  show "0.17217 < soi_factor"
    unfolding soi_factor_def by (rule root5_lower) (simp_all add: power2_eq_square power_divide)
  show "soi_factor < 0.17218"
    unfolding soi_factor_def by (rule root5_upper) (simp_all add: power2_eq_square power_divide)
qed

lemma getLunarSOI_value: "getLunarSOI = Num (384400 * soi_factor)"
  by (simp add: getLunarSOI_def EARTH_MOON_DISTANCE_def MU_MOON_def MU_EARTH_def
        pow_finite_def soi_factor_def Let_def)

lemma transfer_structure:
  assumes S: "getLunarSOI = Num S" and "66000 < S" and "S < 67000"
  shows "\<exists>t. calculateEarthMoonTransfer = Inr t \<and> em_lunarSOI t = Num S
     \<and> em_totalDeltaV t = Num (deltaV_real S)
     \<and> deltaV1 (em_lunarCapture t) = Num (capture_deltaV_real S)
     \<and> \<not> pc_energy_balance_check (em_patchedConicDetails t)"
proof -
  have pos: "0 < S" using assms(2) by simp
  have hf: "\<And>x::real. 1 \<le> 1 + x * x * S * 5000 / 49027779"
    using pos by simp
  have hf_ne: "\<And>x::real. 1 + x * x * S * 5000 / 49027779 \<noteq> 0"
    using hf by (metis not_one_le_zero)
  have hf_nl: "\<And>x::real. \<not> 1 + x * x * S * 5000 / 49027779 < 0"
    using hf by (smt (verit))
  have ln_nl: "\<And>x::real. \<not> sqrt (S ^ 3 * 10000 / 49027779)
                  * ln (1 + x * x * S * 5000 / 49027779) < 0"
  proof -
    fix x :: real
    have "0 \<le> ln (1 + x * x * S * 5000 / 49027779)"
      using hf by (intro ln_ge_zero)
    moreover have "0 \<le> sqrt (S ^ 3 * 10000 / 49027779)"
      using pos by simp
    ultimately have "0 \<le> sqrt (S ^ 3 * 10000 / 49027779)
                  * ln (1 + x * x * S * 5000 / 49027779)"
      by (rule mult_nonneg_nonneg[rotated])
    then show "\<not> sqrt (S ^ 3 * 10000 / 49027779)
                  * ln (1 + x * x * S * 5000 / 49027779) < 0"
      by simp
  qed
  have pi_nl: "\<not> pi * sqrt (((390971 - S) / 2) ^ 3 * 5000 / 1993002209) < 0"
  proof -
    have "0 \<le> ((390971 - S) / 2) ^ 3" using assms(3) by simp
    then have "0 \<le> pi * sqrt (((390971 - S) / 2) ^ 3 * 5000 / 1993002209)"
      by simp
    then show ?thesis by simp
  qed
  have entry_nl: "\<And>x::real. \<not> x * x + 49027779 / (5000 * S) < 0"
  proof -
    fix x :: real
    have "0 \<le> x * x + 49027779 / (5000 * S)"
      using pos by (intro add_nonneg_nonneg) simp_all
    then show "\<not> x * x + 49027779 / (5000 * S) < 0" by simp
  qed
  have cap_nl: "\<not> 98055558 < 180128060046 / (S + 1837)"
    using pos by (simp add: field_simps)
  have dep_nl: "\<not> 1993002209 < 65480087576695000 / (3844000000 - 10000 * S)"
    using assms(3) by (simp add: field_simps)
  have tot_nl: "\<And>x::real. \<not> pi * sqrt (((390971 - S) / 2) ^ 3 * 5000 / 1993002209)
      + sqrt (S ^ 3 * 10000 / 49027779) * ln (1 + x * x * S * 5000 / 49027779) < 0"
    using ln_nl pi_nl by (smt (verit))
  have dep_nl': "\<not> 1993002209 < 32740043788347500 / (1922000000 - 5000 * S)"
    using assms(3) by (simp add: field_simps)
  have e2: "3986004418 / (3844000000 - 10000 * S) = 1993002209 / (1922000000 - 5000 * S)"
    using assms(3) by (simp add: field_simps)
  show ?thesis
  using assms(2,3)
  by (simp add: calculateEarthMoonTransfer_def S Let_def EARTH_RADIUS_def EARTH_LOW_ORBIT_def
     MOON_RADIUS_def MOON_ORBIT_ALT_def EARTH_MOON_DISTANCE_def MU_EARTH_def MU_MOON_def
     calculateTransferTime_def calculateLunarCaptureTime_def secondsToHours_def
     HOURS_PER_SECOND_def validateEnergyBalance_def pow_finite_def deltaV_real_def
     capture_deltaV_real_def v_soi_entry_real_def
     hf_ne hf_nl ln_nl pi_nl entry_nl cap_nl dep_nl dep_nl' tot_nl e2)
qed


lemma sqrt_between:
  fixes lo hi x :: real
  assumes "0 \<le> lo" and "lo\<^sup>2 < x" and "x < hi\<^sup>2" and "0 \<le> hi"
  shows "lo < sqrt x \<and> sqrt x < hi"
  using assms by (simp add: real_less_rsqrt real_less_lsqrt)

lemma v_soi_entry_real_bounds:
  assumes "66182 < S" and "S < 66186"
  shows "0.681 < v_soi_entry_real S \<and> v_soi_entry_real S < 0.684"
proof -
  define rb where "rb = 384400 - S"
  have rb: "318214 < rb" "rb < 318218"
    using assms by (simp_all add: rb_def)
  have q: "1.2525 < 398600.4418 / rb" "398600.4418 / rb < 1.2527"
    using rb by (simp_all add: pos_less_divide_eq pos_divide_less_eq)
  define C where "C = sqrt (2 * 398600.4418 / rb)"
  define D where "D = sqrt (398600.4418 / 384400 :: real)"
  have argC: "2 * 398600.4418 / rb = 2 * (398600.4418 / rb)"
    by simp
  have C: "1.582 < C \<and> C < 1.583"
    unfolding C_def argC using q
    by (intro sqrt_between) (simp_all add: power2_eq_square)
  have D: "1.018 < D \<and> D < 1.019"
    unfolding D_def by (intro sqrt_between) (simp_all add: power2_eq_square)
  have vinf: "0.563 < C - D" "C - D < 0.565"
    using C D by simp_all
  have sq_lo: "0.563 * 0.563 < (C - D) * (C - D)"
    using mult_strict_mono [of "0.563" "C - D" "0.563" "C - D"] vinf by simp
  have sq_hi: "(C - D) * (C - D) < 0.565 * 0.565"
    using mult_strict_mono [of "C - D" "0.565" "C - D" "0.565"] vinf by simp
  have p: "0.1481 < 2 * 4902.7779 / S" "2 * 4902.7779 / S < 0.1482"
    using assms by (simp_all add: pos_less_divide_eq pos_divide_less_eq)
  have abs_sq: "\<bar>C - D\<bar> * \<bar>C - D\<bar> = (C - D) * (C - D)"
    by simp
  have "v_soi_entry_real S = sqrt (\<bar>C - D\<bar> * \<bar>C - D\<bar> + 2 * 4902.7779 / S)"
    unfolding v_soi_entry_real_def Let_def C_def D_def rb_def
    by (rule refl)
  also have "0.681 < \<dots> \<and> \<dots> < 0.684"
    unfolding abs_sq using sq_lo sq_hi p
    by (intro sqrt_between) (simp_all add: power2_eq_square)
  finally show ?thesis .
qed

lemma deltaV_real_bounds:
  assumes "66182 < S" and "S < 66186"
  shows "2.21 < deltaV_real S \<and> deltaV_real S < 2.23"
proof -
  define rb where "rb = 384400 - S"
  have rb: "318214 < rb" "rb < 318218"
    using assms by (simp_all add: rb_def)
  have q: "1.2525 < 398600.4418 / rb" "398600.4418 / rb < 1.2527"
    using rb by (simp_all add: pos_less_divide_eq pos_divide_less_eq)
  define A where "A = sqrt (2 * (- 398600.4418 / (2 * rb) + 398600.4418 / 6571))"
  define B where "B = sqrt (398600.4418 / 6571 :: real)"
  define F where "F = sqrt (4902.7779 / 1837 :: real)"
  have argA: "2 * (- 398600.4418 / (2 * rb) + 398600.4418 / 6571)
                = 2 * 398600.4418 / 6571 - 398600.4418 / rb"
    using rb by (simp add: field_simps)
  have A: "10.957 < A \<and> A < 10.958"
    unfolding A_def argA using q
    by (intro sqrt_between) (simp_all add: power2_eq_square)
  have B: "7.788 < B \<and> B < 7.789"
    unfolding B_def by (intro sqrt_between) (simp_all add: power2_eq_square)
  have F: "1.633 < F \<and> F < 1.634"
    unfolding F_def by (intro sqrt_between) (simp_all add: power2_eq_square)
  have "deltaV_real S = A - B + (v_soi_entry_real S - F)"
    unfolding deltaV_real_def Let_def A_def B_def F_def rb_def
    by (rule refl)
  then show ?thesis
    using A B F v_soi_entry_real_bounds [OF assms] by simp
qed

lemma capture_deltaV_real_negative:
  assumes "66182 < S" and "S < 66186"
  shows "capture_deltaV_real S < - 1.58"
proof -
  define P where "P = sqrt (4902.7779 * (2 / 1837 - 2 / (S + 1837)))"
  have inv: "2 / (S + 1837) < 0.00003"
    using assms by (simp add: pos_divide_less_eq)
  have "2.27\<^sup>2 < 4902.7779 * (2 / 1837 - 2 / (S + 1837))"
    using inv by (simp add: power2_eq_square)
  then have P: "2.27 < P"
    unfolding P_def by (rule real_less_rsqrt)
  have "capture_deltaV_real S = v_soi_entry_real S - P"
    unfolding capture_deltaV_real_def Let_def P_def
    by (rule refl)
  then show ?thesis
    using P v_soi_entry_real_bounds [OF assms] by simp
qed

text \<open>
  C1. \<^verbatim>\<open>HohmannTransfer.calculateEarthMoonTransfer()\<close> with the constants of the
  repository returns: a lunar sphere of influence between 66182 and 66186 km (the
  Hill-sphere value), a \<open>totalDeltaV\<close> between 2.21 and 2.23 km/s, which is outside the
  range from 3.8 to 4.2 km/s, a first lunar burn \<open>lunarCapture.deltaV1\<close> below
  \<open>-1.58\<close> km/s, and \<open>energy_balance_check = false\<close>.
\<close>

theorem calculateEarthMoonTransfer_evaluation:
  "\<exists>t S dv dv1. calculateEarthMoonTransfer = Inr t
      \<and> em_lunarSOI t = Num S \<and> 66182 < S \<and> S < 66186
      \<and> em_totalDeltaV t = Num dv \<and> 2.21 < dv \<and> dv < 2.23
      \<and> deltaV1 (em_lunarCapture t) = Num dv1 \<and> dv1 < - 1.58
      \<and> \<not> pc_energy_balance_check (em_patchedConicDetails t)"
proof -
  define S where "S = 384400 * soi_factor"
  have S: "66182 < S" "S < 66186"
    using soi_factor_bounds by (simp_all add: S_def)
  have "getLunarSOI = Num S"
    by (simp add: getLunarSOI_value S_def)
  then obtain t where "calculateEarthMoonTransfer = Inr t" "em_lunarSOI t = Num S"
    "em_totalDeltaV t = Num (deltaV_real S)"
    "deltaV1 (em_lunarCapture t) = Num (capture_deltaV_real S)"
    "\<not> pc_energy_balance_check (em_patchedConicDetails t)"
    using transfer_structure [of S] S by auto
  then show ?thesis
    using S deltaV_real_bounds [of S] capture_deltaV_real_negative [of S] by blast
qed

end
